theory Spec2Isabelle
  imports Main "HOL-Library.Sublist"
begin

section \<open>Agent names (src/src/constants.ts)\<close>

definition CLOUDFORMATION_AGENT :: string where
  "CLOUDFORMATION_AGENT = ''cloudformationAgent''"

definition CODEPIPELINE_AGENT :: string where
  "CODEPIPELINE_AGENT = ''codepipelineAgent''"

definition CLOUDWATCHLOGS_AGENT :: string where
  "CLOUDWATCHLOGS_AGENT = ''cloudwatchLogsAgent''"

definition LAMBDA_AGENT :: string where
  "LAMBDA_AGENT = ''lambdaAgent''"

definition DYNAMODB_AGENT :: string where
  "DYNAMODB_AGENT = ''dynamodbAgent''"

definition S3_AGENT :: string where
  "S3_AGENT = ''s3Agent''"

definition AWS_AGENT :: string where
  "AWS_AGENT = ''awsAgent''"

definition AWS_AGENT_NETWORK :: string where
  "AWS_AGENT_NETWORK = ''awsAgentNetwork''"

definition AWS_AGENT_NAMES :: "string list" where
  "AWS_AGENT_NAMES =
     [CLOUDFORMATION_AGENT, CODEPIPELINE_AGENT, CLOUDWATCHLOGS_AGENT, LAMBDA_AGENT,
      DYNAMODB_AGENT, S3_AGENT, AWS_AGENT]"

definition AWS_AGENT_NAMES_WITH_NETWORK :: "string list" where
  "AWS_AGENT_NAMES_WITH_NETWORK = AWS_AGENT_NAMES @ [AWS_AGENT_NETWORK]"

lemmas agent_name_defs =
  CLOUDFORMATION_AGENT_def CODEPIPELINE_AGENT_def CLOUDWATCHLOGS_AGENT_def LAMBDA_AGENT_def
  DYNAMODB_AGENT_def S3_AGENT_def AWS_AGENT_def AWS_AGENT_NETWORK_def
  AWS_AGENT_NAMES_def AWS_AGENT_NAMES_WITH_NETWORK_def

section \<open>Thread identifiers (src/src/lambda/streaming.ts, line 63)\<close>

text \<open>The template literal \<^verbatim>\<open>`${agent}::${threadId}`\<close>.\<close>

definition namespacedThreadId :: "string \<Rightarrow> string \<Rightarrow> string" where
  "namespacedThreadId agent threadId = agent @ ''::'' @ threadId"

text \<open>
  The two notions the specification uses to talk about thread identifiers; the program has no
  code for them. \<open>contains_sep s\<close>: the separator \<^verbatim>\<open>::\<close> occurs in \<open>s\<close>.
  \<open>split_first_sep s\<close>: the text before and the text after the first occurrence of the
  separator, \<open>None\<close> when there is none. \<open>ends_with_colon s\<close>: the last character
  of \<open>s\<close> is a colon.
\<close>

fun contains_sep :: "string \<Rightarrow> bool" where
  "contains_sep (c # d # cs) = ((c = CHR '':'' \<and> d = CHR '':'') \<or> contains_sep (d # cs))"
| "contains_sep _ = False"

fun split_first_sep :: "string \<Rightarrow> (string \<times> string) option" where
  "split_first_sep (c # d # cs) =
     (if c = CHR '':'' \<and> d = CHR '':'' then Some ([], cs)
      else map_option (\<lambda>(a, b). (c # a, b)) (split_first_sep (d # cs)))"
| "split_first_sep _ = None"

definition ends_with_colon :: "string \<Rightarrow> bool" where
  "ends_with_colon s = (s \<noteq> [] \<and> last s = CHR '':'')"

section \<open>Values of the platform\<close>

text \<open>
  A JavaScript string is kept as the bytes of its UTF-8 encoding, so a character outside ASCII
  takes several \<open>char\<close>s.
\<close>

text \<open>
  A parsed JSON document. Only the kind of a number matters to the schema, so its value is kept
  as an integer. An object is the list of its keys with their values, in order; the keys are
  distinct, as they are in a JavaScript object.
\<close>

datatype json =
    JNull
  | JBool bool
  | JNum int
  | JStr string
  | JArr "json list"
  | JObj "(string \<times> json) list"

text \<open>
  What a \<^verbatim>\<open>catch\<close> clause receives: an \<^verbatim>\<open>Error\<close> object with its message, or any
  other value, kept as its \<^verbatim>\<open>String(...)\<close> rendering.
\<close>

datatype thrown = Error string | NonError string

text \<open>\<^verbatim>\<open>error instanceof Error ? error.message : String(error)\<close>\<close>

fun error_text :: "thrown \<Rightarrow> string" where
  "error_text (Error m) = m"
| "error_text (NonError v) = v"

text \<open>
  The white space and the line terminators that \<^verbatim>\<open>trim\<close> removes, in UTF-8: the six
  of ASCII; U+00A0; U+1680, U+2000 to U+200A, U+2028, U+2029, U+202F, U+205F, U+3000 and
  U+FEFF. \<open>blank s\<close> is \<^verbatim>\<open>!s.trim()\<close>: the string is made of them only.
\<close>

definition space1 :: "char \<Rightarrow> bool" where
  "space1 a = (a \<in> set [CHR 0x09, CHR 0x0A, CHR 0x0B, CHR 0x0C, CHR 0x0D, CHR 0x20])"

definition space2 :: "char \<Rightarrow> char \<Rightarrow> bool" where
  "space2 a b = (a = CHR 0xC2 \<and> b = CHR 0xA0)"

definition space3 :: "char \<Rightarrow> char \<Rightarrow> char \<Rightarrow> bool" where
  "space3 a b c =
     ((a = CHR 0xE1 \<and> b = CHR 0x9A \<and> c = CHR 0x80)
      \<or> (a = CHR 0xE2 \<and> b = CHR 0x80
          \<and> c \<in> set [CHR 0x80, CHR 0x81, CHR 0x82, CHR 0x83, CHR 0x84, CHR 0x85, CHR 0x86,
                       CHR 0x87, CHR 0x88, CHR 0x89, CHR 0x8A, CHR 0xA8, CHR 0xA9, CHR 0xAF])
      \<or> (a = CHR 0xE2 \<and> b = CHR 0x81 \<and> c = CHR 0x9F)
      \<or> (a = CHR 0xE3 \<and> b = CHR 0x80 \<and> c = CHR 0x80)
      \<or> (a = CHR 0xEF \<and> b = CHR 0xBB \<and> c = CHR 0xBF))"

fun blank :: "string \<Rightarrow> bool" where
  "blank [] = True"
| "blank [a] = space1 a"
| "blank [a, b] = (if space1 a then blank [b] else space2 a b)"
| "blank (a # b # c # cs) =
     (if space1 a then blank (b # c # cs)
      else if space2 a b then blank (c # cs)
      else space3 a b c \<and> blank cs)"

section \<open>The request schema (lambda/shared.ts, in src/unnamed/part_010) on the zod library\<close>

text \<open>
  The issues zod reports, with the messages of its default error map. A missing key is
  \<open>Required\<close>; a value of the wrong kind is \<open>InvalidType expected received\<close>; a string
  that is no member of an enumeration is \<open>InvalidEnumValue options received\<close>; a failed
  \<^verbatim>\<open>refine\<close> carries the message the schema gives it.
\<close>

datatype zod_issue =
    Required
  | InvalidType string string
  | InvalidEnumValue "string list" string
  | Custom string

fun parsed_type :: "json \<Rightarrow> string" where
  "parsed_type JNull = ''null''"
| "parsed_type (JBool _) = ''boolean''"
| "parsed_type (JNum _) = ''number''"
| "parsed_type (JStr _) = ''string''"
| "parsed_type (JArr _) = ''array''"
| "parsed_type (JObj _) = ''object''"

fun join :: "string \<Rightarrow> string list \<Rightarrow> string" where
  "join sep [] = []"
| "join sep [x] = x"
| "join sep (x # y # ys) = x @ sep @ join sep (y # ys)"

definition joinValues :: "string list \<Rightarrow> string" where
  "joinValues vs = join '' | '' (map (\<lambda>v. [CHR 0x27] @ v @ [CHR 0x27]) vs)"

fun issue_message :: "zod_issue \<Rightarrow> string" where
  "issue_message Required = ''Required''"
| "issue_message (InvalidType expected received) =
     ''Expected '' @ expected @ '', received '' @ received"
| "issue_message (InvalidEnumValue options received) =
     ''Invalid enum value. Expected '' @ joinValues options @ '', received ''
       @ [CHR 0x27] @ received @ [CHR 0x27]"
| "issue_message (Custom m) = m"

text \<open>\<^verbatim>\<open>z.string()\<close> on the value of a key (\<open>None\<close>: the key is absent).\<close>

fun z_string :: "json option \<Rightarrow> zod_issue list + string" where
  "z_string None = Inl [Required]"
| "z_string (Some (JStr v)) = Inr v"
| "z_string (Some j) = Inl [InvalidType ''string'' (parsed_type j)]"

text \<open>\<^verbatim>\<open>z.enum(options).optional().default(d)\<close> on the value of a key.\<close>

fun z_enum_default :: "string list \<Rightarrow> string \<Rightarrow> json option \<Rightarrow> zod_issue list + string" where
  "z_enum_default options d None = Inr d"
| "z_enum_default options d (Some (JStr v)) =
     (if v \<in> set options then Inr v else Inl [InvalidEnumValue options v])"
| "z_enum_default options d (Some j) = Inl [InvalidType (joinValues options) (parsed_type j)]"

fun issues_of :: "zod_issue list + 'a \<Rightarrow> zod_issue list" where
  "issues_of (Inl is) = is"
| "issues_of (Inr _) = []"

record body_content =
  query :: string
  threadId :: string
  resourceId :: string
  agent :: string

text \<open>
  \<open>BodyContentSchema\<close>: an object with the three string keys and the optional \<open>agent\<close>,
  which defaults to \<open>AWS_AGENT\<close>. The keys are checked in the order of the schema, every
  issue is collected, keys the schema does not name are dropped.
\<close>

fun BodyContentSchema :: "json \<Rightarrow> zod_issue list + body_content" where
  "BodyContentSchema (JObj kvs) =
     (let q = z_string (map_of kvs ''query'');
          t = z_string (map_of kvs ''threadId'');
          r = z_string (map_of kvs ''resourceId'');
          a = z_enum_default AWS_AGENT_NAMES_WITH_NETWORK AWS_AGENT (map_of kvs ''agent'')
      in case (q, t, r, a) of
           (Inr qv, Inr tv, Inr rv, Inr av) \<Rightarrow>
             Inr \<lparr>query = qv, threadId = tv, resourceId = rv, agent = av\<rparr>
         | _ \<Rightarrow> Inl (issues_of q @ issues_of t @ issues_of r @ issues_of a))"
| "BodyContentSchema j = Inl [InvalidType ''object'' (parsed_type j)]"

text \<open>
  The value of \<open>body\<close> in an event: the key is absent, or its value is
  \<^verbatim>\<open>null\<close>, or a string.
\<close>

datatype body_value = Absent | Null | Text string

text \<open>
  \<open>EventBodySchema\<close>, given \<^verbatim>\<open>JSON.parse\<close> (\<open>None\<close> where it throws): a nullable string
  that must not be null, must parse, and whose parsed value goes through
  \<open>BodyContentSchema\<close>. An absent body is no string and no null, which ends the parse with
  \<open>Required\<close>. On a null body the first refinement fails, the second one passes
  (\<^verbatim>\<open>JSON.parse(null)\<close> is \<^verbatim>\<open>null\<close>), and zod runs neither the transform nor the
  pipe on a value that already has an issue.
\<close>

definition EventBodySchema ::
  "(string \<Rightarrow> json option) \<Rightarrow> body_value \<Rightarrow> zod_issue list + body_content" where
  "EventBodySchema JSON_parse body =
     (case body of
        Absent \<Rightarrow> Inl [Required]
      | Null \<Rightarrow> Inl [Custom ''Missing request body'']
      | Text b \<Rightarrow>
          (case JSON_parse b of
             None \<Rightarrow> Inl [Custom ''Invalid JSON in request body'']
           | Some j \<Rightarrow> BodyContentSchema j))"

text \<open>The event of either handler; only its \<open>body\<close> is read.\<close>

record event =
  body :: body_value

text \<open>\<open>EventSchema = z.object({ body: EventBodySchema })\<close>, the same in both handlers.\<close>

definition EventSchema ::
  "(string \<Rightarrow> json option) \<Rightarrow> event \<Rightarrow> zod_issue list + body_content" where
  "EventSchema JSON_parse ev = EventBodySchema JSON_parse (body ev)"


section \<open>The agent directory (lib/index.ts, in src/unnamed/part_007)\<close>

text \<open>
  The agents and the Mastra directory are library objects; the model keeps what the handlers
  use of them. A message is its role and its content. \<open>generate\<close> resolves with the text
  of the response or rejects; \<open>stream\<close> resolves with a text stream or rejects. A text
  stream yields its chunks in order and then ends, or throws after them (\<open>failure\<close>).
\<close>

type_synonym message = "string \<times> string"

record call_opts =
  opt_threadId :: string
  opt_resourceId :: string
  maxSteps :: nat
  maxRetries :: nat
  temperature :: "nat option"

record text_stream =
  chunks :: "string list"
  failure :: "thrown option"

record agent_obj =
  generate :: "message list \<Rightarrow> call_opts \<Rightarrow> thrown + string"
  stream :: "message list \<Rightarrow> call_opts \<Rightarrow> thrown + text_stream"

text \<open>
  A Mastra instance: \<open>getAgent name\<close> throws, returns nothing, or returns the agent.
\<close>

record mastra =
  getAgent :: "string \<Rightarrow> thrown + agent_obj option"

text \<open>
  The module state: \<open>mastraInstancePromise\<close>, \<open>None\<close> for \<^verbatim>\<open>null\<close>. A promise is
  identified by the number of the \<open>initializeMastra\<close> call that created it, and
  \<open>initializeMastra_calls\<close> counts those calls.
\<close>

record lib_state =
  mastraInstancePromise :: "nat option"
  initializeMastra_calls :: nat

definition initial_lib_state :: lib_state where
  "initial_lib_state = \<lparr>mastraInstancePromise = None, initializeMastra_calls = 0\<rparr>"

definition initializeMastra :: "lib_state \<Rightarrow> nat \<times> lib_state" where
  "initializeMastra st =
     (initializeMastra_calls st, st\<lparr>initializeMastra_calls := Suc (initializeMastra_calls st)\<rparr>)"

definition getMastraInstance :: "lib_state \<Rightarrow> nat \<times> lib_state" where
  "getMastraInstance st =
     (case mastraInstancePromise st of
        None \<Rightarrow>
          (let (p, st') = initializeMastra st
           in (p, st'\<lparr>mastraInstancePromise := Some p\<rparr>))
      | Some p \<Rightarrow> (p, st))"

text \<open>
  A run of calls of \<open>getMastraInstance\<close>, one after the other (the function is synchronous,
  so calls of concurrent requests do not interleave inside it): the promises returned, in
  order, and the final state.
\<close>

fun getMastraInstance_calls :: "nat \<Rightarrow> lib_state \<Rightarrow> nat list \<times> lib_state" where
  "getMastraInstance_calls 0 st = ([], st)"
| "getMastraInstance_calls (Suc n) st =
     (let (p, st') = getMastraInstance st;
          (ps, st'') = getMastraInstance_calls n st'
      in (p # ps, st''))"

text \<open>
  Either no promise has been created and \<open>initializeMastra\<close> has not run, or the promise is
  the one of the first run and \<open>initializeMastra\<close> has run once.
\<close>

definition initialized_once :: "lib_state \<Rightarrow> bool" where
  "initialized_once st =
     (case mastraInstancePromise st of
        None \<Rightarrow> initializeMastra_calls st = 0
      | Some p \<Rightarrow> p = 0 \<and> initializeMastra_calls st = 1)"

section \<open>The handlers (lambda/buffered.ts, in src/unnamed/part_011, and src/src/lambda/streaming.ts)\<close>

text \<open>
  What the handlers use of their surroundings: \<^verbatim>\<open>JSON.parse\<close> (\<open>None\<close> where it
  throws), \<^verbatim>\<open>JSON.stringify\<close>, how the promise of the \<open>n\<close>-th \<open>initializeMastra\<close>
  call settles, and \<open>createAwsAgentNetwork\<close> with the \<open>stream\<close> method of the network it
  resolves with.
\<close>

record server_env =
  JSON_parse :: "string \<Rightarrow> json option"
  JSON_stringify :: "json \<Rightarrow> string"
  settled :: "nat \<Rightarrow> thrown + mastra"
  createAwsAgentNetwork :: "thrown + (message list \<Rightarrow> call_opts \<Rightarrow> thrown + text_stream)"

text \<open>
  A call that reaches an agent: \<open>generate\<close> or \<open>stream\<close> on the agent that
  \<open>getAgent name\<close> returned, or \<open>stream\<close> on the agent network.
\<close>

datatype dispatch =
    Generate string "message list" call_opts
  | Stream string "message list" call_opts
  | NetworkStream "message list" call_opts

fun dispatch_threadId :: "dispatch \<Rightarrow> string" where
  "dispatch_threadId (Generate _ _ opts) = opt_threadId opts"
| "dispatch_threadId (Stream _ _ opts) = opt_threadId opts"
| "dispatch_threadId (NetworkStream _ opts) = opt_threadId opts"

record api_result =
  statusCode :: nat
  result_body :: string

definition invalid_request :: "zod_issue list \<Rightarrow> json" where
  "invalid_request issues =
     JObj [(''message'', JStr ''Invalid request''),
           (''errors'', JArr (map (\<lambda>e. JStr (issue_message e)) issues))]"

definition internal_server_error :: "thrown \<Rightarrow> json" where
  "internal_server_error e =
     JObj [(''message'', JStr ''Internal Server Error''), (''error'', JStr (error_text e))]"

text \<open>
  The buffered handler: the result, the calls that reached an agent, and the module state.
  Reading \<open>generate\<close> of an agent that \<open>getAgent\<close> did not return throws a
  \<^verbatim>\<open>TypeError\<close>, caught like every other failure.
\<close>

definition undefined_generate :: thrown where
  "undefined_generate = Error (''Cannot read properties of undefined (reading '' @ [CHR 0x27] @ ''generate''
              @ [CHR 0x27] @ '')'')"

definition buffered_500 :: "server_env \<Rightarrow> thrown \<Rightarrow> api_result" where
  "buffered_500 env e =
     \<lparr>statusCode = 500, result_body = JSON_stringify env (internal_server_error e)\<rparr>"

definition buffered_handler ::
  "server_env \<Rightarrow> lib_state \<Rightarrow> event \<Rightarrow> api_result \<times> dispatch list \<times> lib_state" where
  "buffered_handler env st ev =
     (case EventSchema (JSON_parse env) ev of
        Inl issues \<Rightarrow>
          (\<lparr>statusCode = 400, result_body = JSON_stringify env (invalid_request issues)\<rparr>,
           [], st)
      | Inr b \<Rightarrow>
          (let (p, st') = getMastraInstance st
           in case settled env p of
                Inl e \<Rightarrow> (buffered_500 env e, [], st')
              | Inr m \<Rightarrow>
                  (case getAgent m (agent b) of
                     Inl e \<Rightarrow> (buffered_500 env e, [], st')
                   | Inr None \<Rightarrow> (buffered_500 env undefined_generate, [], st')
                   | Inr (Some selectedAgent) \<Rightarrow>
                       (let msgs = [(''user'', query b)];
                            opts = \<lparr>opt_threadId = threadId b, opt_resourceId = resourceId b,
                                    maxSteps = 5, maxRetries = 2, temperature = None\<rparr>
                        in case generate selectedAgent msgs opts of
                             Inl e \<Rightarrow> (buffered_500 env e, [Generate (agent b) msgs opts], st')
                           | Inr text \<Rightarrow>
                               (\<lparr>statusCode = 200,
                                 result_body = JSON_stringify env
                                   (JObj [(''message'', JStr text), (''agent'', JStr (agent b))])\<rparr>,
                                [Generate (agent b) msgs opts], st')))))"

text \<open>
  The streaming handler writes to the response stream of the Function URL; the model returns
  the operations on it in order, the calls that reached an agent, and the module state.
\<close>

datatype stream_op = SetContentType string | Write string | End

text \<open>
  \<^verbatim>\<open>for await (const chunk of stream.textStream) responseStream.write(chunk)\<close>, then
  \<^verbatim>\<open>responseStream.end()\<close>; a stream that throws lands in the \<^verbatim>\<open>catch\<close> clause.
\<close>

definition streaming_500 :: "server_env \<Rightarrow> thrown \<Rightarrow> stream_op list" where
  "streaming_500 env e = [Write (JSON_stringify env (internal_server_error e)), End]"

definition write_text_stream :: "server_env \<Rightarrow> text_stream \<Rightarrow> stream_op list" where
  "write_text_stream env ts =
     map Write (chunks ts)
       @ (case failure ts of None \<Rightarrow> [End] | Some e \<Rightarrow> streaming_500 env e)"

definition agent_not_found :: "string \<Rightarrow> json" where
  "agent_not_found a =
     JObj [(''message'', JStr (''Agent '' @ [CHR 0x22] @ a @ [CHR 0x22] @ '' not found. Valid agents are: ''
                               @ join '', '' AWS_AGENT_NAMES @ ''.''))]"

definition streaming_handler ::
  "server_env \<Rightarrow> lib_state \<Rightarrow> event \<Rightarrow> stream_op list \<times> dispatch list \<times> lib_state" where
  "streaming_handler env st ev =
     (case EventSchema (JSON_parse env) ev of
        Inl issues \<Rightarrow> ([Write (JSON_stringify env (invalid_request issues)), End], [], st)
      | Inr b \<Rightarrow>
          (let namespaced = namespacedThreadId (agent b) (threadId b);
               msgs = [(''user'', query b)];
               opts = \<lparr>opt_threadId = namespaced, opt_resourceId = resourceId b,
                       maxSteps = 10, maxRetries = 2, temperature = Some 0\<rparr>
           in if agent b = ''awsAgentNetwork'' then
                (case createAwsAgentNetwork env of
                   Inl e \<Rightarrow> (SetContentType ''text/plain'' # streaming_500 env e, [], st)
                 | Inr network_stream \<Rightarrow>
                     (case network_stream msgs opts of
                        Inl e \<Rightarrow>
                          (SetContentType ''text/plain'' # streaming_500 env e,
                           [NetworkStream msgs opts], st)
                      | Inr ts \<Rightarrow>
                          (SetContentType ''text/plain'' # write_text_stream env ts,
                           [NetworkStream msgs opts], st)))
              else
                (let (p, st') = getMastraInstance st
                 in case settled env p of
                      Inl e \<Rightarrow> (SetContentType ''text/plain'' # streaming_500 env e, [], st')
                    | Inr m \<Rightarrow>
                        (case getAgent m (agent b) of
                           Inl e \<Rightarrow> (SetContentType ''text/plain'' # streaming_500 env e, [], st')
                         | Inr None \<Rightarrow>
                             ([SetContentType ''text/plain'',
                               Write (JSON_stringify env (agent_not_found (agent b))), End],
                              [], st')
                         | Inr (Some selectedAgent) \<Rightarrow>
                             (case stream selectedAgent msgs opts of
                                Inl e \<Rightarrow>
                                  (SetContentType ''text/plain'' # streaming_500 env e,
                                   [Stream (agent b) msgs opts], st')
                              | Inr ts \<Rightarrow>
                                  (SetContentType ''text/plain'' # write_text_stream env ts,
                                   [Stream (agent b) msgs opts], st'))))))"

section \<open>Numbers in template literals\<close>

text \<open>
  The decimal rendering of a natural number and of an integer, as a template literal renders
  a status code or \<^verbatim>\<open>Date.now()\<close>. \<open>digit\<close> is only applied to numbers below ten.
  A template literal writes all the digits of an integer only below \<open>10\<^sup>2\<^sup>1\<close>; the
  numbers rendered here are status codes and time values, which stay below it:
  \<open>time_value\<close> is the range of \<^verbatim>\<open>Date.now()\<close>, 100 million days on either side of
  the epoch, in milliseconds.
\<close>

definition digit :: "nat \<Rightarrow> char" where
  "digit d = ''0123456789'' ! d"

fun decimal :: "nat \<Rightarrow> string" where
  "decimal n = (if n < 10 then [digit n] else decimal (n div 10) @ [digit (n mod 10)])"

declare decimal.simps [simp del]

definition number_to_string :: "int \<Rightarrow> string" where
  "number_to_string i = (if i < 0 then CHR ''-'' # decimal (nat (- i)) else decimal (nat i))"


section \<open>The signed transports (src/scripts/utils/invoke-api-utils.ts)\<close>

datatype credentials = Credentials string string "string option"

datatype url = URL (hostname: string) (pathname: string) (protocol: string)

datatype http_request =
  HttpRequest (req_method: string) (req_hostname: string) (req_path: string)
    (req_protocol: string) (req_headers: "(string \<times> string) list") (req_body: string)

text \<open>
  The body of a response as its reader delivers it: the values of the reads that are not
  \<open>done\<close>, in order (\<open>None\<close> for a read without a value), and then the end of input
  (\<open>ending = None\<close>) or a read that rejects.
\<close>

record body_stream =
  reads :: "char list option list"
  ending :: "thrown option"

text \<open>
  A response of \<^verbatim>\<open>fetch\<close>: its status, what \<^verbatim>\<open>json()\<close> and \<^verbatim>\<open>text()\<close> settle with,
  and its body, \<open>None\<close> when there is none. \<open>ok\<close> is the platform's
  \<^verbatim>\<open>response.ok\<close>: the status is in the range 200 to 299.
\<close>

record response =
  status :: nat
  json_result :: "thrown + json"
  text_result :: "thrown + string"
  response_body :: "body_stream option"

definition ok :: "response \<Rightarrow> bool" where
  "ok r = (200 \<le> status r \<and> status r \<le> 299)"

text \<open>
  What the transports use of their surroundings: the credential provider chain for a profile,
  the \<^verbatim>\<open>URL\<close> constructor, the SigV4 signer for given credentials, region and service,
  \<^verbatim>\<open>fetch\<close> (which reads the method, the headers and the body of the signed request),
  and the \<^verbatim>\<open>TextDecoder\<close>. A decoder reads its input byte by byte and keeps a state
  between two calls with \<^verbatim>\<open>stream: true\<close>: the bytes of a character that is not
  complete yet, and whatever else it remembers of the stream, written as a list of bytes.
  \<open>decoder held b\<close> is the text that the byte \<open>b\<close> completes and the state
  afterwards. The state of a new decoder is the empty list.
\<close>

record client_env =
  credentialProvider :: "string option \<Rightarrow> thrown + credentials option"
  new_URL :: "string \<Rightarrow> thrown + url"
  sign :: "credentials option \<Rightarrow> string \<Rightarrow> string \<Rightarrow> http_request \<Rightarrow> thrown + http_request"
  fetch :: "string \<Rightarrow> http_request \<Rightarrow> thrown + response"
  decoder :: "char list \<Rightarrow> char \<Rightarrow> string \<times> char list"

definition json_headers :: "url \<Rightarrow> (string \<times> string) list" where
  "json_headers u = [(''Content-Type'', ''application/json''), (''host'', hostname u)]"

definition invokeSignedApiRequest ::
  "client_env \<Rightarrow> string \<Rightarrow> string \<Rightarrow> string option \<Rightarrow> string option \<Rightarrow> string \<Rightarrow> thrown + json" where
  "invokeSignedApiRequest env endpoint region profile method_opt body_text =
     (let method = (case method_opt of None \<Rightarrow> ''POST'' | Some m \<Rightarrow> m)
      in case credentialProvider env profile of
           Inl e \<Rightarrow> Inl e
         | Inr creds \<Rightarrow>
        (case new_URL env endpoint of
           Inl e \<Rightarrow> Inl e
         | Inr u \<Rightarrow>
        (let request = HttpRequest method (hostname u) (pathname u) (protocol u)
                         (json_headers u) body_text
         in case sign env creds region ''execute-api'' request of
           Inl e \<Rightarrow> Inl e
         | Inr signedRequest \<Rightarrow>
        (case fetch env endpoint signedRequest of
           Inl e \<Rightarrow> Inl e
         | Inr resp \<Rightarrow>
        (case json_result resp of
           Inl e \<Rightarrow> Inl e
         | Inr responseBody \<Rightarrow>
             if \<not> ok resp
             then Inl (Error (''Request failed with status '' @ decimal (status resp)))
             else Inr responseBody)))))"

text \<open>
  \<^verbatim>\<open>decoder.decode(value, { stream: true })\<close>: the bytes of the chunk go through the
  decoder one after the other; the text decoded and the state afterwards.
\<close>

fun decode_stream ::
  "(char list \<Rightarrow> char \<Rightarrow> string \<times> char list) \<Rightarrow> char list \<Rightarrow> char list
     \<Rightarrow> string \<times> char list" where
  "decode_stream dec held [] = ([], held)"
| "decode_stream dec held (b # bs) =
     (let (t, held') = dec held b;
          (ts, held'') = decode_stream dec held' bs
      in (t @ ts, held''))"

text \<open>
  The read loop of \<open>invokeStreamingRequest\<close>: the arguments of the calls of \<open>onChunk\<close>,
  in order. A read without a value calls nothing.
\<close>

fun read_loop ::
  "(char list \<Rightarrow> char \<Rightarrow> string \<times> char list) \<Rightarrow> char list \<Rightarrow> char list option list
     \<Rightarrow> string list" where
  "read_loop dec held [] = []"
| "read_loop dec held (None # rs) = read_loop dec held rs"
| "read_loop dec held (Some v # rs) =
     (let (text, held') = decode_stream dec held v in text # read_loop dec held' rs)"

text \<open>
  \<open>invokeStreamingRequest\<close>: how the promise settles, and the arguments of the calls of
  \<open>onChunk\<close> in order.
\<close>

definition invokeStreamingRequest ::
  "client_env \<Rightarrow> string \<Rightarrow> string \<Rightarrow> string option \<Rightarrow> string \<Rightarrow> (thrown + unit) \<times> string list" where
  "invokeStreamingRequest env functionUrl region profile body_text =
     (case credentialProvider env profile of
        Inl e \<Rightarrow> (Inl e, [])
      | Inr None \<Rightarrow>
          (Inl (Error (''Failed to load credentials for profile: ''
                        @ (case profile of None \<Rightarrow> ''undefined'' | Some p \<Rightarrow> p))), [])
      | Inr (Some creds) \<Rightarrow>
     (case new_URL env functionUrl of
        Inl e \<Rightarrow> (Inl e, [])
      | Inr u \<Rightarrow>
     (let request = HttpRequest ''POST'' (hostname u) (pathname u) (protocol u)
                      (json_headers u) body_text
      in case sign env (Some creds) region ''lambda'' request of
        Inl e \<Rightarrow> (Inl e, [])
      | Inr signedRequest \<Rightarrow>
     (case fetch env functionUrl signedRequest of
        Inl e \<Rightarrow> (Inl e, [])
      | Inr resp \<Rightarrow>
          if \<not> ok resp then
            (case text_result resp of
               Inl e \<Rightarrow> (Inl e, [])
             | Inr errorText \<Rightarrow>
                 (Inl (Error (''Streaming request failed with status '' @ decimal (status resp))),
                  []))
          else
            (case response_body resp of
               None \<Rightarrow>
                 (Inl (Error ''No response body received from the streaming request''), [])
             | Some reader \<Rightarrow>
                 (case ending reader of None \<Rightarrow> Inr () | Some e \<Rightarrow> Inl e,
                  read_loop (decoder env) [] (reads reader)))))))"

section \<open>Endpoint lookup (src/scripts/utils/invoke-api-utils.ts)\<close>

record stack_output =
  OutputKey :: "string option"
  OutputValue :: "string option"

record stack =
  Outputs :: "stack_output list option"

record describe_stacks_output =
  Stacks :: "stack list option"

text \<open>
  \<^verbatim>\<open>response.Stacks?.[0]?.Outputs?.find((output) => output.OutputKey === key)?.OutputValue\<close>
\<close>

definition find_output :: "string \<Rightarrow> describe_stacks_output \<Rightarrow> string option" where
  "find_output k r =
     (case Stacks r of
        None \<Rightarrow> None
      | Some [] \<Rightarrow> None
      | Some (s # _) \<Rightarrow>
          (case Outputs s of
             None \<Rightarrow> None
           | Some outs \<Rightarrow>
               (case find (\<lambda>output. OutputKey output = Some k) outs of
                  None \<Rightarrow> None
                | Some output \<Rightarrow> OutputValue output)))"

text \<open>
  The CloudFormation side: the credential provider chain, and \<^verbatim>\<open>DescribeStacks\<close> for
  a region, credentials and a stack name. Both lookups catch every failure and return
  \<^verbatim>\<open>undefined\<close>.
\<close>

record cfn_env =
  cfn_credentialProvider :: "string option \<Rightarrow> thrown + credentials option"
  describeStacks :: "string \<Rightarrow> credentials option \<Rightarrow> string \<Rightarrow> thrown + describe_stacks_output"

definition getApiEndpoint :: "cfn_env \<Rightarrow> string \<Rightarrow> string \<Rightarrow> string option \<Rightarrow> string option" where
  "getApiEndpoint env stack_name region_name profile_name =
     (case cfn_credentialProvider env profile_name of
        Inl e \<Rightarrow> None
      | Inr creds \<Rightarrow>
          (case describeStacks env region_name creds stack_name of
             Inl e \<Rightarrow> None
           | Inr r \<Rightarrow> find_output ''ApiEndpoint'' r))"

definition getFunctionUrl :: "cfn_env \<Rightarrow> string \<Rightarrow> string \<Rightarrow> string option \<Rightarrow> string option" where
  "getFunctionUrl env stack_name region_name profile_name =
     (case cfn_credentialProvider env profile_name of
        Inl e \<Rightarrow> None
      | Inr creds \<Rightarrow>
          (case describeStacks env region_name creds stack_name of
             Inl e \<Rightarrow> None
           | Inr r \<Rightarrow> find_output ''StreamingFunctionUrlEndpoint'' r))"

section \<open>The chat client (scripts/interactive-chat.ts, in src/unnamed/part_012)\<close>

text \<open>
  The command line after yargs has parsed it and filled in the defaults: \<open>arg_sessionId\<close>,
  \<open>arg_endpoint\<close> and \<open>arg_query\<close> are \<open>None\<close> when the option is not given.
\<close>

record argv =
  arg_endpoint :: "string option"
  arg_region :: string
  arg_profile :: string
  arg_sessionId :: "string option"
  arg_stackName :: string
  arg_agent :: string
  arg_streaming :: bool
  arg_debug :: bool
  arg_query :: "string option"

record AppConfig =
  region :: string
  profile :: "string option"
  stackName :: string
  initialAgent :: string
  initialUseStreaming :: bool
  debug :: bool
  singleQuery :: "string option"
  sessionId :: string
  apiGatewayEndpoint :: "string option"
  lambdaFunctionUrl :: "string option"


text \<open>An optional string is truthy when it is present and not empty.\<close>

fun truthy :: "string option \<Rightarrow> bool" where
  "truthy None = False"
| "truthy (Some s) = (s \<noteq> [])"

text \<open>\<^verbatim>\<open>argv.sessionId || `chat-${Date.now()}`\<close>, with the reading of the clock.\<close>

definition session_id_or_generated :: "string option \<Rightarrow> int \<Rightarrow> string" where
  "session_id_or_generated given now =
     (case given of
        None \<Rightarrow> ''chat-'' @ number_to_string now
      | Some s \<Rightarrow> if s \<noteq> [] then s else ''chat-'' @ number_to_string now)"

text \<open>
  A call of one of the lookups, with its arguments: the two of the chat client, and
  \<open>getCfnOutput\<close> of the MCP server (stack name, output key, region).
\<close>

datatype lookup =
    GetFunctionUrl string string "string option"
  | GetApiEndpoint string string "string option"
  | GetCfnOutput string string string

fun is_GetApiEndpoint :: "lookup \<Rightarrow> bool" where
  "is_GetApiEndpoint (GetApiEndpoint _ _ _) = True"
| "is_GetApiEndpoint _ = False"

text \<open>
  \<open>loadAndValidateConfig\<close>, from the parsed command line and the reading of the clock: the
  configuration, or the exit code of \<^verbatim>\<open>process.exit\<close>, and the lookups called, in order.
  Console output is left out here; \<open>loadAndValidateConfig_io\<close> below has it.
\<close>

definition loadAndValidateConfig ::
  "cfn_env \<Rightarrow> int \<Rightarrow> argv \<Rightarrow> (nat + AppConfig) \<times> lookup list" where
  "loadAndValidateConfig env now args =
     (let config = \<lparr>region = arg_region args, profile = Some (arg_profile args),
                     stackName = arg_stackName args, initialAgent = arg_agent args,
                     initialUseStreaming = arg_streaming args, debug = arg_debug args,
                     singleQuery = arg_query args,
                     sessionId = session_id_or_generated (arg_sessionId args) now,
                     apiGatewayEndpoint = arg_endpoint args, lambdaFunctionUrl = None\<rparr>;
          call1 = GetFunctionUrl (stackName config) (region config) (profile config);
          config = config\<lparr>lambdaFunctionUrl :=
                     getFunctionUrl env (stackName config) (region config) (profile config)\<rparr>;
          config = (if initialUseStreaming config \<and> \<not> truthy (lambdaFunctionUrl config)
                    then config\<lparr>initialUseStreaming := False\<rparr> else config)
      in if \<not> truthy (apiGatewayEndpoint config) \<and> \<not> initialUseStreaming config then
           (let call2 = GetApiEndpoint (stackName config) (region config) (profile config);
                config = config\<lparr>apiGatewayEndpoint :=
                           getApiEndpoint env (stackName config) (region config) (profile config)\<rparr>
            in if truthy (apiGatewayEndpoint config) then
                 (if \<not> truthy (lambdaFunctionUrl config) \<and> \<not> truthy (apiGatewayEndpoint config)
                  then (Inl 1, [call1, call2]) else (Inr config, [call1, call2]))
               else (Inl 1, [call1, call2]))
         else
           (if \<not> truthy (lambdaFunctionUrl config) \<and> \<not> truthy (apiGatewayEndpoint config)
            then (Inl 1, [call1]) else (Inr config, [call1])))"

subsection \<open>Session information\<close>





subsection \<open>The console\<close>

text \<open>
  What the chat client writes: a call of \<^verbatim>\<open>console.log\<close> with its line, a call of
  \<^verbatim>\<open>console.error\<close> with its arguments, a call of \<^verbatim>\<open>process.stdout.write\<close> with
  its text. An argument of \<^verbatim>\<open>console.error\<close> that is not a string is kept as the value
  it is: how the console shows it is the platform's business.
\<close>

datatype shown = Str string | Num nat | Val json | Caught thrown

datatype console = Console_log string | Console_error "shown list" | Stdout_write string

definition log_if :: "bool \<Rightarrow> string \<Rightarrow> console list" where
  "log_if b line = (if b then [Console_log line] else [])"




subsection \<open>Values parsed from JSON\<close>







subsection \<open>The lookups and the transports with their console output\<close>




text \<open>
  \<open>invokeSignedApiRequest\<close> with what it writes: how the promise settles, and the console.
\<close>

definition invokeSignedApiRequest_io ::
  "client_env \<Rightarrow> string \<Rightarrow> string \<Rightarrow> string option \<Rightarrow> string option \<Rightarrow> string
     \<Rightarrow> (thrown + json) \<times> console list" where
  "invokeSignedApiRequest_io env endpoint region_name profile_name method_opt body_text =
     (let method = (case method_opt of None \<Rightarrow> ''POST'' | Some m \<Rightarrow> m)
      in case credentialProvider env profile_name of
           Inl e \<Rightarrow> (Inl e, [])
         | Inr creds \<Rightarrow>
        (case new_URL env endpoint of
           Inl e \<Rightarrow> (Inl e, [])
         | Inr u \<Rightarrow>
        (let request = HttpRequest method (hostname u) (pathname u) (protocol u)
                         (json_headers u) body_text
         in case sign env creds region_name ''execute-api'' request of
           Inl e \<Rightarrow> (Inl e, [])
         | Inr signedRequest \<Rightarrow>
        (case fetch env endpoint signedRequest of
           Inl e \<Rightarrow> (Inl e, [])
         | Inr resp \<Rightarrow>
        (case json_result resp of
           Inl e \<Rightarrow> (Inl e, [])
         | Inr responseBody \<Rightarrow>
             if \<not> ok resp
             then (Inl (Error (''Request failed with status '' @ decimal (status resp))),
                   [Console_error [Str ''Request Failed:'', Num (status resp), Val responseBody]])
             else (Inr responseBody, []))))))"

text \<open>
  \<open>invokeStreamingRequest\<close> with what it writes: how the promise settles, and the console,
  to which each call of \<open>onChunk\<close> adds what the callback writes. \<open>DEBUG\<close> tells whether
  \<^verbatim>\<open>process.env.DEBUG\<close> is set.
\<close>

definition invokeStreamingRequest_io ::
  "client_env \<Rightarrow> bool \<Rightarrow> (string \<Rightarrow> console list) \<Rightarrow> string \<Rightarrow> string \<Rightarrow> string option \<Rightarrow> string
     \<Rightarrow> (thrown + unit) \<times> console list" where
  "invokeStreamingRequest_io env DEBUG onChunk functionUrl region_name profile_name body_text =
     (case credentialProvider env profile_name of
        Inl e \<Rightarrow> (Inl e, [])
      | Inr None \<Rightarrow>
          (Inl (Error (''Failed to load credentials for profile: ''
                        @ (case profile_name of None \<Rightarrow> ''undefined'' | Some p \<Rightarrow> p))), [])
      | Inr (Some creds) \<Rightarrow>
     (case new_URL env functionUrl of
        Inl e \<Rightarrow> (Inl e, [])
      | Inr u \<Rightarrow>
     (let request = HttpRequest ''POST'' (hostname u) (pathname u) (protocol u)
                      (json_headers u) body_text
      in case sign env (Some creds) region_name ''lambda'' request of
        Inl e \<Rightarrow> (Inl e, [])
      | Inr signedRequest \<Rightarrow>
     (case fetch env functionUrl signedRequest of
        Inl e \<Rightarrow> (Inl e, [])
      | Inr resp \<Rightarrow>
          if \<not> ok resp then
            (case text_result resp of
               Inl e \<Rightarrow> (Inl e, [])
             | Inr errorText \<Rightarrow>
                 (Inl (Error (''Streaming request failed with status '' @ decimal (status resp))),
                  [Console_error [Str ''Streaming request failed:'', Num (status resp),
                                  Str errorText]]))
          else
            (case response_body resp of
               None \<Rightarrow>
                 (Inl (Error ''No response body received from the streaming request''), [])
             | Some reader \<Rightarrow>
                 (case ending reader of None \<Rightarrow> Inr () | Some e \<Rightarrow> Inl e,
                  concat (map (\<lambda>text. log_if DEBUG (''[DEBUG] Received raw chunk: '' @ text)
                                       @ onChunk text)
                            (read_loop (decoder env) [] (reads reader)))))))))"

subsection \<open>Configuration, with the console\<close>



subsection \<open>Single queries\<close>













subsection \<open>The script\<close>

text \<open>
  \<open>main\<close>, from the parsed command line and the reading of the clock, up to the end of
  the process or the first prompt of the interactive chat: what it has written by then, and
  which of the two it is, with the exit code or the text of the prompt.
  \<open>loadAndValidateConfig\<close> sets \<^verbatim>\<open>process.env.DEBUG\<close> when the command line asks for
  debug output. Neither \<open>loadAndValidateConfig\<close> nor \<open>executeSingleQuery\<close> lets an error
  out, so the \<^verbatim>\<open>catch\<close> clause of \<open>main\<close> is not entered before the first prompt.
\<close>

datatype ending = Exit nat | Prompt string








subsection \<open>Identifiers\<close>





section \<open>The MCP server (mcp-server/index.ts, in src/src/cdk/lib/serverless-agent-stack.ts from line 318)\<close>

text \<open>
  The input of the tool \<^verbatim>\<open>remoteAgentProxy\<close> after validation, and what the tool returns.
\<close>

record RemoteAgentProxyInput =
  in_query :: string
  in_profile :: "string option"
  in_agent :: string
  in_stackName :: string
  in_region :: string
  in_sessionId :: string
  in_lambdaFunctionUrlOverride :: "string option"

record proxy_result =
  result_output :: string
  result_sessionId :: string






text \<open>
  \<open>getCfnOutput\<close>: the value of the output, \<^verbatim>\<open>undefined\<close> when the stack has no such
  output, or the error it throws when the call fails.
\<close>

definition getCfnOutput ::
  "cfn_env \<Rightarrow> string \<Rightarrow> string \<Rightarrow> string \<Rightarrow> credentials option \<Rightarrow> thrown + string option" where
  "getCfnOutput env stack_name outputKey region_name creds =
     (case describeStacks env region_name creds stack_name of
        Inl e \<Rightarrow>
          Inl (Error (''Failed to retrieve '' @ outputKey @ '' from CloudFormation stack ''
                       @ stack_name @ '': '' @ error_text e))
      | Inr r \<Rightarrow> Inr (find_output outputKey r))"

definition signRequest ::
  "client_env \<Rightarrow> string \<Rightarrow> string \<Rightarrow> string \<Rightarrow> string \<Rightarrow> credentials option
     \<Rightarrow> thrown + http_request" where
  "signRequest env requestUrl region_name service body_text creds =
     (case new_URL env requestUrl of
        Inl e \<Rightarrow> Inl e
      | Inr u \<Rightarrow>
          sign env creds region_name service
            (HttpRequest ''POST'' (hostname u) (pathname u) (protocol u) (json_headers u)
               body_text))"

text \<open>
  The \<open>invokeStreamingRequest\<close> of the MCP server, which has no callback: it returns the
  decoded fragments appended to one another.
\<close>

definition proxy_invokeStreamingRequest ::
  "client_env \<Rightarrow> string \<Rightarrow> string \<Rightarrow> string \<Rightarrow> credentials option \<Rightarrow> thrown + string" where
  "proxy_invokeStreamingRequest env functionUrl region_name body_text creds =
     (case signRequest env functionUrl region_name ''lambda'' body_text creds of
        Inl e \<Rightarrow> Inl e
      | Inr signedRequest \<Rightarrow>
     (case fetch env functionUrl signedRequest of
        Inl e \<Rightarrow> Inl e
      | Inr resp \<Rightarrow>
          (case (if ok resp then response_body resp else None) of
             None \<Rightarrow>
               (case text_result resp of
                  Inl e \<Rightarrow> Inl e
                | Inr errorText \<Rightarrow>
                    Inl (Error (''Streaming request failed with status '' @ decimal (status resp)
                                 @ '': '' @ errorText)))
           | Some reader \<Rightarrow>
               (case ending reader of
                  Some e \<Rightarrow> Inl e
                | None \<Rightarrow> Inr (concat (read_loop (decoder env) [] (reads reader)))))))"

text \<open>
  \<open>runRemoteAgentProxy\<close>: what it returns, or the error it throws, and the lookups called.
  The credentials are fetched before the \<^verbatim>\<open>try\<close> block, so their failure is thrown;
  every failure inside the block is returned as an output.
\<close>

definition proxy_failure :: "RemoteAgentProxyInput \<Rightarrow> thrown \<Rightarrow> proxy_result" where
  "proxy_failure inp e =
     \<lparr>result_output = ''Error invoking remote agent: '' @ error_text e,
      result_sessionId = in_sessionId inp\<rparr>"

definition proxy_send ::
  "client_env \<Rightarrow> (json \<Rightarrow> string) \<Rightarrow> RemoteAgentProxyInput \<Rightarrow> credentials option \<Rightarrow> string
     \<Rightarrow> proxy_result" where
  "proxy_send env stringify inp creds functionUrl =
     (let requestBody = JObj [(''query'', JStr (in_query inp)), (''agent'', JStr (in_agent inp)),
                              (''threadId'', JStr (in_sessionId inp)),
                              (''resourceId'', JStr (''remoteProxy-tool-'' @ in_sessionId inp))]
      in case proxy_invokeStreamingRequest env functionUrl (in_region inp)
                (stringify requestBody) creds of
           Inl e \<Rightarrow> proxy_failure inp e
         | Inr responseText \<Rightarrow> \<lparr>result_output = responseText, result_sessionId = in_sessionId inp\<rparr>)"

definition runRemoteAgentProxy ::
  "client_env \<Rightarrow> cfn_env \<Rightarrow> (json \<Rightarrow> string) \<Rightarrow> RemoteAgentProxyInput
     \<Rightarrow> (thrown + proxy_result) \<times> lookup list" where
  "runRemoteAgentProxy env cfn stringify inp =
     (case credentialProvider env (in_profile inp) of
        Inl e \<Rightarrow> (Inl e, [])
      | Inr originalCredentials \<Rightarrow>
          if blank (in_query inp) then
            (Inr \<lparr>result_output = ''Please provide a query to send to the remote agent.'',
                  result_sessionId = in_sessionId inp\<rparr>, [])
          else
            (let (looked_up, calls) =
                   (if \<not> truthy (in_lambdaFunctionUrlOverride inp) then
                      (case getCfnOutput cfn (in_stackName inp) ''StreamingFunctionUrlEndpoint''
                              (in_region inp) originalCredentials of
                         Inl e \<Rightarrow>
                           Inl (Error (''Failed to get Lambda Function URL: '' @ error_text e))
                       | Inr v \<Rightarrow> Inr v,
                       [GetCfnOutput (in_stackName inp) ''StreamingFunctionUrlEndpoint''
                          (in_region inp)])
                    else (Inr (in_lambdaFunctionUrlOverride inp), []))
             in case looked_up of
                  Inl e \<Rightarrow> (Inr (proxy_failure inp e), calls)
                | Inr None \<Rightarrow>
                    (Inr (proxy_failure inp
                       (Error ''Lambda Function URL not found and not provided in override.'')),
                     calls)
                | Inr (Some functionUrl) \<Rightarrow>
                    if functionUrl = [] then
                      (Inr (proxy_failure inp
                         (Error ''Lambda Function URL not found and not provided in override.'')),
                       calls)
                    else
                      (Inr (proxy_send env stringify inp originalCredentials functionUrl),
                       calls)))"




section \<open>Concrete surroundings\<close>

text \<open>
  A serialiser that agrees with \<^verbatim>\<open>JSON.stringify\<close> on documents whose strings need no
  escaping, a table of request bodies with what \<^verbatim>\<open>JSON.parse\<close> makes of them, and a
  directory in which every name of \<open>AWS_AGENT_NAMES\<close> has an agent that answers.
\<close>

fun example_stringify :: "json \<Rightarrow> string" where
  "example_stringify JNull = ''null''"
| "example_stringify (JBool b) = (if b then ''true'' else ''false'')"
| "example_stringify (JNum n) = number_to_string n"
| "example_stringify (JStr s) = [CHR 0x22] @ s @ [CHR 0x22]"
| "example_stringify (JArr vs) = ''['' @ join '','' (map example_stringify vs) @ '']''"
| "example_stringify (JObj kvs) =
     ''{'' @ join '','' (map (\<lambda>(k, v). [CHR 0x22] @ k @ [CHR 0x22] @ '':'' @ example_stringify v) kvs)
       @ ''}''"

definition request_empty_query :: string where
  \<open>request_empty_query =
     ''{"query":"","threadId":"thread-chat-1","resourceId":"resource-chat-1","agent":"awsAgent"}''\<close>

definition request_s3 :: string where
  \<open>request_s3 =
     ''{"query":"list buckets","threadId":"thread-chat-1","resourceId":"resource-chat-1","agent":"s3Agent"}''\<close>

definition request_lambda :: string where
  \<open>request_lambda =
     ''{"query":"list functions","threadId":"thread-chat-1","resourceId":"resource-chat-1","agent":"lambdaAgent"}''\<close>

definition request_no_agent :: string where
  \<open>request_no_agent =
     ''{"query":"hi","threadId":"thread-chat-1","resourceId":"resource-chat-1"}''\<close>

definition request_unknown_agent :: string where
  \<open>request_unknown_agent =
     ''{"query":"hi","threadId":"thread-chat-1","resourceId":"resource-chat-1","agent":"billingAgent"}''\<close>

definition envelope :: "string \<Rightarrow> string option \<Rightarrow> json" where
  "envelope q a =
     JObj ([(''query'', JStr q), (''threadId'', JStr ''thread-chat-1''),
            (''resourceId'', JStr ''resource-chat-1'')]
           @ (case a of None \<Rightarrow> [] | Some n \<Rightarrow> [(''agent'', JStr n)]))"

definition example_JSON_parse :: "string \<Rightarrow> json option" where
  "example_JSON_parse s =
     (if s = request_empty_query then Some (envelope [] (Some ''awsAgent''))
      else if s = request_s3 then Some (envelope ''list buckets'' (Some ''s3Agent''))
      else if s = request_lambda then Some (envelope ''list functions'' (Some ''lambdaAgent''))
      else if s = request_no_agent then Some (envelope ''hi'' None)
      else if s = request_unknown_agent then Some (envelope ''hi'' (Some ''billingAgent''))
      else None)"

definition example_text_stream :: text_stream where
  "example_text_stream = \<lparr>chunks = [''Hel'', ''lo '', ''World''], failure = None\<rparr>"

definition example_agent :: "string \<Rightarrow> agent_obj" where
  "example_agent n =
     \<lparr>generate = (\<lambda>msgs opts. Inr (''answer of '' @ n)),
      stream = (\<lambda>msgs opts. Inr example_text_stream)\<rparr>"

definition example_mastra :: mastra where
  "example_mastra =
     \<lparr>getAgent = (\<lambda>n. if n \<in> set AWS_AGENT_NAMES then Inr (Some (example_agent n))
                       else Inl (Error (''Agent with name '' @ n @ '' not found'')))\<rparr>"

definition example_server_env :: server_env where
  "example_server_env =
     \<lparr>JSON_parse = example_JSON_parse, JSON_stringify = example_stringify,
      settled = (\<lambda>n. Inr example_mastra),
      createAwsAgentNetwork = Inr (\<lambda>msgs opts. Inr example_text_stream)\<rparr>"

text \<open>
  A decoder for UTF-8, exact on well-formed input: a byte below \<open>0x80\<close> is a character,
  a lead byte says how many bytes its character has and is held with the continuation bytes
  that follow until the character is complete; what is not well formed becomes U+FFFD.
\<close>

definition utf8_length :: "char \<Rightarrow> nat" where
  "utf8_length b =
     (let n = (of_char b :: nat)
      in if n < 0x80 then 1
         else if 0xC2 \<le> n \<and> n \<le> 0xDF then 2
         else if 0xE0 \<le> n \<and> n \<le> 0xEF then 3
         else if 0xF0 \<le> n \<and> n \<le> 0xF4 then 4
         else 0)"

definition utf8_continuation :: "char \<Rightarrow> bool" where
  "utf8_continuation b = (0x80 \<le> (of_char b :: nat) \<and> (of_char b :: nat) \<le> 0xBF)"

definition U_FFFD :: string where
  "U_FFFD = [CHR 0xEF, CHR 0xBF, CHR 0xBD]"

definition utf8_start :: "char \<Rightarrow> string \<times> char list" where
  "utf8_start b =
     (if utf8_length b = 1 then ([b], [])
      else if utf8_length b = 0 then (U_FFFD, [])
      else ([], [b]))"

definition utf8_decoder :: "char list \<Rightarrow> char \<Rightarrow> string \<times> char list" where
  "utf8_decoder held b =
     (case held of
        [] \<Rightarrow> utf8_start b
      | lead # _ \<Rightarrow>
          if utf8_continuation b then
            (if Suc (length held) = utf8_length lead then (held @ [b], [])
             else ([], held @ [b]))
          else (U_FFFD @ fst (utf8_start b), snd (utf8_start b)))"

text \<open>
  A client side: credentials are found, URLs with the scheme \<^verbatim>\<open>https\<close> parse, signing adds
  an authorization header, the decoder is the one for UTF-8, and five hosts answer: one
  streams three fragments, one streams \<^verbatim>\<open>H\<close> and a two-byte character cut between
  two fragments, one refuses with a JSON body, one answers 200 with no body, one is a gateway
  that fails with a page of HTML.
\<close>

definition example_new_URL :: "string \<Rightarrow> thrown + url" where
  "example_new_URL s =
     (if prefix ''https://'' s
      then Inr (URL (takeWhile (\<lambda>c. c \<noteq> CHR ''/'') (drop 8 s))
                    (dropWhile (\<lambda>c. c \<noteq> CHR ''/'') (drop 8 s)) ''https:'')
      else Inl (Error ''Invalid URL''))"

definition example_sign ::
  "credentials option \<Rightarrow> string \<Rightarrow> string \<Rightarrow> http_request \<Rightarrow> thrown + http_request" where
  "example_sign creds region_name service request =
     Inr (HttpRequest (req_method request) (req_hostname request) (req_path request)
            (req_protocol request)
            (req_headers request @ [(''authorization'', ''AWS4-HMAC-SHA256 '' @ service)])
            (req_body request))"

definition response_streaming :: response where
  "response_streaming =
     \<lparr>status = 200, json_result = Inl (Error ''Unexpected token H in JSON''),
      text_result = Inr ''Hello World'',
      response_body = Some \<lparr>reads = [Some ''Hel'', Some ''lo '', Some ''World''], ending = None\<rparr>\<rparr>"

definition response_split :: response where
  "response_split =
     \<lparr>status = 200, json_result = Inl (Error ''Unexpected token H in JSON''),
      text_result = Inr [CHR ''H'', CHR 0xC3, CHR 0xA9],
      response_body = Some \<lparr>reads = [Some [CHR ''H'', CHR 0xC3], Some [CHR 0xA9]],
                             ending = None\<rparr>\<rparr>"

definition response_forbidden :: response where
  \<open>response_forbidden =
     \<lparr>status = 403, json_result = Inr (JObj [(''message'', JStr ''Forbidden'')]),
      text_result = Inr ''{"message":"Forbidden"}'',
      response_body = Some \<lparr>reads = [Some ''{"message":"Forbidden"}''], ending = None\<rparr>\<rparr>\<close>

definition response_no_body :: response where
  "response_no_body =
     \<lparr>status = 200, json_result = Inl (Error ''Unexpected end of JSON input''),
      text_result = Inr [], response_body = None\<rparr>"

definition response_bad_gateway :: response where
  "response_bad_gateway =
     \<lparr>status = 502, json_result = Inl (Error ''Unexpected token < in JSON at position 0''),
      text_result = Inr ''<html>Bad Gateway</html>'',
      response_body = Some \<lparr>reads = [Some ''<html>Bad Gateway</html>''], ending = None\<rparr>\<rparr>"

definition example_fetch :: "string \<Rightarrow> http_request \<Rightarrow> thrown + response" where
  "example_fetch u signedRequest =
     (if u = ''https://stream.example/'' then Inr response_streaming
      else if u = ''https://split.example/'' then Inr response_split
      else if u = ''https://forbidden.example/'' then Inr response_forbidden
      else if u = ''https://nobody.example/'' then Inr response_no_body
      else if u = ''https://gateway.example/'' then Inr response_bad_gateway
      else Inl (Error ''fetch failed''))"

definition example_client_env :: client_env where
  "example_client_env =
     \<lparr>credentialProvider = (\<lambda>p. Inr (Some (Credentials ''key-id'' ''key'' None))),
      new_URL = example_new_URL, sign = example_sign, fetch = example_fetch,
      decoder = utf8_decoder\<rparr>"

text \<open>
  A stack with both outputs, and two command lines that differ in everything but leave out
  the session identifier; a third one gives an endpoint.
\<close>

definition example_cfn_env :: cfn_env where
  "example_cfn_env =
     \<lparr>cfn_credentialProvider = (\<lambda>p. Inr (Some (Credentials ''key-id'' ''key'' None))),
      describeStacks = (\<lambda>region_name creds stack_name.
        Inr \<lparr>Stacks = Some [\<lparr>Outputs = Some
          [\<lparr>OutputKey = Some ''ApiEndpoint'', OutputValue = Some ''https://api.example/prod/chat''\<rparr>,
           \<lparr>OutputKey = Some ''StreamingFunctionUrlEndpoint'',
             OutputValue = Some ''https://stream.example/''\<rparr>]\<rparr>]\<rparr>)\<rparr>"

definition argv_default :: argv where
  "argv_default =
     \<lparr>arg_endpoint = None, arg_region = ''us-east-1'', arg_profile = ''default'',
      arg_sessionId = None, arg_stackName = ''ServerlessAgentPatternStack'',
      arg_agent = ''awsAgent'', arg_streaming = True, arg_debug = False, arg_query = None\<rparr>"


definition argv_endpoint :: argv where
  "argv_endpoint = argv_default\<lparr>arg_endpoint := Some ''https://api.example/prod/chat''\<rparr>"












definition example_input :: RemoteAgentProxyInput where
  "example_input =
     \<lparr>in_query = ''list buckets'', in_profile = None, in_agent = ''s3Agent'',
      in_stackName = ''ServerlessAgentPatternStack'', in_region = ''us-east-1'',
      in_sessionId = ''V1StGXR8_Z5jdHi6B-myT'',
      in_lambdaFunctionUrlOverride = Some ''https://stream.example/''\<rparr>"

section \<open>Thread identifiers: injectivity\<close>

lemma contains_sep_iff: "contains_sep s \<longleftrightarrow> (\<exists>p q. s = p @ ''::'' @ q)"
proof (induction s rule: contains_sep.induct)
  case (1 c d cs)
  show ?case
  proof
    assume "contains_sep (c # d # cs)"
    then consider "c = CHR '':'' \<and> d = CHR '':''" | "contains_sep (d # cs)" by auto
    then show "\<exists>p q. c # d # cs = p @ ''::'' @ q"
    proof cases
      case 1
      then have "c # d # cs = [] @ ''::'' @ cs" by simp
      then show ?thesis by blast
    next
      case 2
      with "1.IH" obtain p q where "d # cs = p @ ''::'' @ q" by blast
      then have "c # d # cs = (c # p) @ ''::'' @ q" by simp
      then show ?thesis by blast
    qed
  next
    assume "\<exists>p q. c # d # cs = p @ ''::'' @ q"
    then obtain p q where pq: "c # d # cs = p @ ''::'' @ q" by blast
    show "contains_sep (c # d # cs)"
    proof (cases p)
      case Nil
      with pq show ?thesis by simp
    next
      case (Cons x p')
      with pq have "d # cs = p' @ ''::'' @ q" by simp
      then have "\<exists>p q. d # cs = p @ ''::'' @ q" by blast
      with "1.IH" have "contains_sep (d # cs)" by simp
      then show ?thesis by simp
    qed
  qed
next
  case "2_1"
  show ?case by simp
next
  case "2_2"
  show ?case by (auto simp: append_eq_Cons_conv)
qed

lemma split_first_sep_namespaced:
  "\<not> contains_sep a \<Longrightarrow> \<not> ends_with_colon a \<Longrightarrow>
   split_first_sep (a @ ''::'' @ s) = Some (a, s)"
proof (induction a rule: contains_sep.induct)
  case (1 c d cs)
  then show ?case by (auto simp: ends_with_colon_def)
next
  case "2_1"
  show ?case by simp
next
  case "2_2"
  then show ?case by (simp add: ends_with_colon_def)
qed

lemma agent_names_no_colon:
  assumes "a \<in> set AWS_AGENT_NAMES_WITH_NETWORK"
  shows "\<not> contains_sep a \<and> \<not> ends_with_colon a"
proof -
  from assms have "a = ''cloudformationAgent'' \<or> a = ''codepipelineAgent''
      \<or> a = ''cloudwatchLogsAgent'' \<or> a = ''lambdaAgent'' \<or> a = ''dynamodbAgent''
      \<or> a = ''s3Agent'' \<or> a = ''awsAgent'' \<or> a = ''awsAgentNetwork''"
    by (simp add: agent_name_defs)
  then show ?thesis by (elim disjE) (simp_all add: ends_with_colon_def)
qed

lemma namespacedThreadId_split:
  assumes "\<not> contains_sep a" and "\<not> ends_with_colon a"
  shows "split_first_sep (namespacedThreadId a s) = Some (a, s)"
  unfolding namespacedThreadId_def using assms by (rule split_first_sep_namespaced)

text \<open>
  Claim C3. The derivation runs on validated envelopes only, so its agent name is one of the
  enumeration. For all such agent names and all session identifiers, none of them containing
  the separator \<^verbatim>\<open>::\<close>, the derivation \<open>agentName + "::" + sessionId\<close> is
  injective over the pair, and splitting the derived thread identifier at the first
  \<^verbatim>\<open>::\<close> gives back the pair.
\<close>

theorem namespacedThreadId_injective_on_valid_pairs:
  assumes "a \<in> set AWS_AGENT_NAMES_WITH_NETWORK" and "a' \<in> set AWS_AGENT_NAMES_WITH_NETWORK"
    and "\<not> contains_sep a" and "\<not> contains_sep s"
    and "\<not> contains_sep a'" and "\<not> contains_sep s'"
  shows "(namespacedThreadId a s = namespacedThreadId a' s' \<longrightarrow> a = a' \<and> s = s')
       \<and> split_first_sep (namespacedThreadId a s) = Some (a, s)"
proof -
  from agent_names_no_colon [OF assms(1)] have c: "\<not> ends_with_colon a" by blast
  from agent_names_no_colon [OF assms(2)] have c': "\<not> ends_with_colon a'" by blast
  have sa: "split_first_sep (namespacedThreadId a s) = Some (a, s)"
    using assms(3) c by (rule namespacedThreadId_split)
  have sa': "split_first_sep (namespacedThreadId a' s') = Some (a', s')"
    using assms(5) c' by (rule namespacedThreadId_split)
  have "a = a' \<and> s = s'" if "namespacedThreadId a s = namespacedThreadId a' s'"
  proof -
    from that have "split_first_sep (namespacedThreadId a s)
        = split_first_sep (namespacedThreadId a' s')" by (rule arg_cong)
    then have "Some (a, s) = Some (a', s')" by (simp only: sa sa')
    then show ?thesis by simp
  qed
  with sa show ?thesis by blast
qed

theorem namespacedThreadId_injective_on_valid_pairs_witness:
  "''s3Agent'' \<in> set AWS_AGENT_NAMES_WITH_NETWORK
   \<and> ''lambdaAgent'' \<in> set AWS_AGENT_NAMES_WITH_NETWORK
   \<and> \<not> contains_sep ''s3Agent'' \<and> \<not> contains_sep ''thread-chat-1''
   \<and> \<not> contains_sep ''lambdaAgent''
   \<and> namespacedThreadId ''s3Agent'' ''thread-chat-1''
       \<noteq> namespacedThreadId ''lambdaAgent'' ''thread-chat-1''
   \<and> split_first_sep (namespacedThreadId ''s3Agent'' ''thread-chat-1'')
       = Some (''s3Agent'', ''thread-chat-1'')"
proof -
  have m1: "''s3Agent'' \<in> set AWS_AGENT_NAMES_WITH_NETWORK" by (simp add: agent_name_defs)
  have m2: "''lambdaAgent'' \<in> set AWS_AGENT_NAMES_WITH_NETWORK" by (simp add: agent_name_defs)
  have h1: "\<not> contains_sep ''s3Agent''" by simp
  have h2: "\<not> contains_sep ''thread-chat-1''" by simp
  have h3: "\<not> contains_sep ''lambdaAgent''" by simp
  have ne: "''s3Agent'' \<noteq> ''lambdaAgent''" by simp
  note inj = namespacedThreadId_injective_on_valid_pairs [OF m1 m2 h1 h2 h3 h2]
  from inj ne have h7: "namespacedThreadId ''s3Agent'' ''thread-chat-1''
      \<noteq> namespacedThreadId ''lambdaAgent'' ''thread-chat-1''" by blast
  from inj have h8: "split_first_sep (namespacedThreadId ''s3Agent'' ''thread-chat-1'')
      = Some (''s3Agent'', ''thread-chat-1'')" by blast
  from m1 m2 h1 h2 h3 h7 h8 show ?thesis by blast
qed

text \<open>
  The enumeration matters: names that end with a colon, which validation never lets through,
  would make two pairs share a thread identifier.
\<close>

lemma namespacedThreadId_outside_enumeration:
  "''a:'' \<notin> set AWS_AGENT_NAMES_WITH_NETWORK
   \<and> namespacedThreadId ''a:'' ''b'' = namespacedThreadId ''a'' '':b''"
  by (simp add: namespacedThreadId_def agent_name_defs)

section \<open>Validation at the trust boundary\<close>

lemma EventSchema_unknown_agent:
  assumes "body ev = Text s" and "parse s = Some (JObj kvs)"
    and "map_of kvs ''agent'' = Some (JStr a)" and "a \<notin> set AWS_AGENT_NAMES_WITH_NETWORK"
  shows "\<exists>issues. EventSchema parse ev = Inl issues
           \<and> InvalidEnumValue AWS_AGENT_NAMES_WITH_NETWORK a \<in> set issues"
  using assms
  by (auto simp: EventSchema_def EventBodySchema_def Let_def split: sum.splits)

lemma buffered_handler_invalid:
  "EventSchema (JSON_parse env) ev = Inl issues \<Longrightarrow>
   buffered_handler env st ev =
     (\<lparr>statusCode = 400, result_body = JSON_stringify env (invalid_request issues)\<rparr>, [], st)"
  by (simp add: buffered_handler_def)

lemma streaming_handler_invalid:
  "EventSchema (JSON_parse env) ev = Inl issues \<Longrightarrow>
   streaming_handler env st ev =
     ([Write (JSON_stringify env (invalid_request issues)), End], [], st)"
  by (simp add: streaming_handler_def)

lemma example_parse_unknown_agent:
  "example_JSON_parse request_unknown_agent = Some (envelope ''hi'' (Some ''billingAgent''))"
  by (simp add: example_JSON_parse_def request_unknown_agent_def request_empty_query_def
      request_s3_def request_lambda_def request_no_agent_def)

lemma example_parse_empty_query:
  "example_JSON_parse request_empty_query = Some (envelope [] (Some ''awsAgent''))"
  by (simp add: example_JSON_parse_def)

lemma example_parse_s3:
  "example_JSON_parse request_s3 = Some (envelope ''list buckets'' (Some ''s3Agent''))"
  by (simp add: example_JSON_parse_def request_empty_query_def request_s3_def)

lemma example_parse_lambda:
  "example_JSON_parse request_lambda = Some (envelope ''list functions'' (Some ''lambdaAgent''))"
  by (simp add: example_JSON_parse_def request_empty_query_def request_s3_def request_lambda_def)

lemma example_parse_no_agent:
  "example_JSON_parse request_no_agent = Some (envelope ''hi'' None)"
  by (simp add: example_JSON_parse_def request_empty_query_def request_s3_def request_lambda_def
      request_no_agent_def)

lemma example_server_env_fields:
  "JSON_parse example_server_env = example_JSON_parse"
  "JSON_stringify example_server_env = example_stringify"
  "settled example_server_env n = Inr example_mastra"
  "createAwsAgentNetwork example_server_env = Inr (\<lambda>msgs opts. Inr example_text_stream)"
  by (simp_all add: example_server_env_def)

lemma example_mastra_getAgent:
  "n \<in> set AWS_AGENT_NAMES \<Longrightarrow> getAgent example_mastra n = Inr (Some (example_agent n))"
  by (simp add: example_mastra_def)

lemma example_agent_fields:
  "generate (example_agent n) msgs opts = Inr (''answer of '' @ n)"
  "stream (example_agent n) msgs opts = Inr example_text_stream"
  by (simp_all add: example_agent_def)

lemma getMastraInstance_initial:
  "getMastraInstance initial_lib_state =
     (0, \<lparr>mastraInstancePromise = Some 0, initializeMastra_calls = 1\<rparr>)"
  by (simp add: getMastraInstance_def initializeMastra_def initial_lib_state_def)

lemma EventSchema_envelope_known:
  "a \<in> set AWS_AGENT_NAMES_WITH_NETWORK \<Longrightarrow> parse s = Some (envelope q (Some a)) \<Longrightarrow>
   EventSchema parse \<lparr>body = Text s\<rparr> =
     Inr \<lparr>query = q, threadId = ''thread-chat-1'', resourceId = ''resource-chat-1'', agent = a\<rparr>"
  by (simp add: EventSchema_def EventBodySchema_def envelope_def)

text \<open>
  Claim C1, as amended. An envelope whose \<open>agent\<close> is a string outside the enumerated set is
  rejected: the buffered handler answers 400 with the body
  \<open>{message: "Invalid request", errors: string[]}\<close>, the streaming handler writes that same
  body and ends the stream, the list of errors is not empty, and on both surfaces no call
  reaches an agent and the directory is not touched.
\<close>

theorem unknown_agent_rejected:
  assumes "body ev = Text s" and "JSON_parse env s = Some (JObj kvs)"
    and "map_of kvs ''agent'' = Some (JStr a)" and "a \<notin> set AWS_AGENT_NAMES_WITH_NETWORK"
  shows "\<exists>errors. errors \<noteq> []
           \<and> buffered_handler env st ev =
               (\<lparr>statusCode = 400,
                 result_body = JSON_stringify env
                   (JObj [(''message'', JStr ''Invalid request''),
                          (''errors'', JArr (map JStr errors))])\<rparr>, [], st)
           \<and> streaming_handler env st ev =
               ([Write (JSON_stringify env
                   (JObj [(''message'', JStr ''Invalid request''),
                          (''errors'', JArr (map JStr errors))])), End], [], st)"
proof -
  from EventSchema_unknown_agent [where parse = "JSON_parse env", OF assms]
  obtain issues where inv: "EventSchema (JSON_parse env) ev = Inl issues"
    and mem: "InvalidEnumValue AWS_AGENT_NAMES_WITH_NETWORK a \<in> set issues" by blast
  let ?errors = "map issue_message issues"
  from mem have "issues \<noteq> []" by auto
  then have ne: "?errors \<noteq> []" by simp
  have shape: "invalid_request issues =
      JObj [(''message'', JStr ''Invalid request''), (''errors'', JArr (map JStr ?errors))]"
    by (simp add: invalid_request_def comp_def)
  have b: "buffered_handler env st ev =
      (\<lparr>statusCode = 400, result_body = JSON_stringify env
          (JObj [(''message'', JStr ''Invalid request''),
                 (''errors'', JArr (map JStr ?errors))])\<rparr>, [], st)"
    using buffered_handler_invalid [OF inv] by (simp only: shape)
  have c: "streaming_handler env st ev =
      ([Write (JSON_stringify env
          (JObj [(''message'', JStr ''Invalid request''),
                 (''errors'', JArr (map JStr ?errors))])), End], [], st)"
    using streaming_handler_invalid [OF inv] by (simp only: shape)
  from ne b c show ?thesis by blast
qed

theorem unknown_agent_rejected_witness:
  "\<exists>errors. errors \<noteq> []
     \<and> buffered_handler example_server_env initial_lib_state \<lparr>body = Text request_unknown_agent\<rparr> =
         (\<lparr>statusCode = 400,
           result_body = example_stringify
             (JObj [(''message'', JStr ''Invalid request''),
                    (''errors'', JArr (map JStr errors))])\<rparr>, [], initial_lib_state)
     \<and> streaming_handler example_server_env initial_lib_state \<lparr>body = Text request_unknown_agent\<rparr> =
         ([Write (example_stringify
             (JObj [(''message'', JStr ''Invalid request''),
                    (''errors'', JArr (map JStr errors))])), End], [], initial_lib_state)"
proof -
  have h1: "body \<lparr>body = Text request_unknown_agent\<rparr> = Text request_unknown_agent" by simp
  have h2: "JSON_parse example_server_env request_unknown_agent =
      Some (JObj [(''query'', JStr ''hi''), (''threadId'', JStr ''thread-chat-1''),
                  (''resourceId'', JStr ''resource-chat-1''), (''agent'', JStr ''billingAgent'')])"
    by (simp add: example_server_env_fields example_parse_unknown_agent envelope_def)
  have h3: "map_of [(''query'', JStr ''hi''), (''threadId'', JStr ''thread-chat-1''),
                  (''resourceId'', JStr ''resource-chat-1''), (''agent'', JStr ''billingAgent'')]
              ''agent'' = Some (JStr ''billingAgent'')" by simp
  have h4: "''billingAgent'' \<notin> set AWS_AGENT_NAMES_WITH_NETWORK"
    by (simp add: agent_name_defs)
  have s: "JSON_stringify example_server_env = example_stringify"
    by (simp add: example_server_env_fields)
  from unknown_agent_rejected [OF h1 h2 h3 h4, of initial_lib_state]
  show ?thesis unfolding s .
qed

text \<open>
  Claim C1 as stated fails for the empty query: the schema takes any string as \<open>query\<close>, so
  the envelope below passes validation, the buffered handler calls \<open>generate\<close> on the agent
  with the empty query and answers 200.
\<close>

theorem empty_query_dispatched_counterexample:
  "buffered_handler example_server_env initial_lib_state \<lparr>body = Text request_empty_query\<rparr> =
     (\<lparr>statusCode = 200,
       result_body = example_stringify
         (JObj [(''message'', JStr ''answer of awsAgent''), (''agent'', JStr ''awsAgent'')])\<rparr>,
      [Generate ''awsAgent'' [(''user'', [])]
         \<lparr>opt_threadId = ''thread-chat-1'', opt_resourceId = ''resource-chat-1'',
          maxSteps = 5, maxRetries = 2, temperature = None\<rparr>],
      \<lparr>mastraInstancePromise = Some 0, initializeMastra_calls = 1\<rparr>)"
proof -
  have v: "EventSchema example_JSON_parse \<lparr>body = Text request_empty_query\<rparr> =
      Inr \<lparr>query = [], threadId = ''thread-chat-1'', resourceId = ''resource-chat-1'',
           agent = ''awsAgent''\<rparr>"
    by (simp add: EventSchema_envelope_known example_parse_empty_query agent_name_defs)
  have a: "''awsAgent'' \<in> set AWS_AGENT_NAMES" by (simp add: agent_name_defs)
  show ?thesis
    by (simp add: buffered_handler_def example_server_env_fields v getMastraInstance_initial
        example_mastra_getAgent [OF a] example_agent_fields)
qed

section \<open>Thread identifiers on the two surfaces\<close>

lemma streaming_handler_namespaced:
  assumes "EventSchema (JSON_parse env) ev = Inr b"
    and "streaming_handler env st ev = (ops, ds, st')"
  shows "\<forall>d \<in> set ds. dispatch_threadId d = namespacedThreadId (agent b) (threadId b)"
  using assms
  by (auto simp: streaming_handler_def Let_def
      split: sum.splits option.splits prod.splits if_splits)

lemma buffered_handler_thread:
  assumes "EventSchema (JSON_parse env) ev = Inr b"
    and "buffered_handler env st ev = (res, ds, st')"
  shows "\<forall>d \<in> set ds. dispatch_threadId d = threadId b"
  using assms
  by (auto simp: buffered_handler_def Let_def split: sum.splits option.splits prod.splits)

text \<open>
  Claim C2 at its failing input. Two envelopes with the thread identifier
  \<^verbatim>\<open>thread-chat-1\<close>, one for \<^verbatim>\<open>s3Agent\<close> and one for \<^verbatim>\<open>lambdaAgent\<close>: the buffered
  handler calls both agents with the thread identifier \<^verbatim>\<open>thread-chat-1\<close> as it came, so the
  two calls share it, where the streaming handler calls the agent with
  \<^verbatim>\<open>s3Agent::thread-chat-1\<close>.
\<close>

theorem buffered_handler_thread_not_namespaced:
  "map dispatch_threadId
     (fst (snd (buffered_handler example_server_env initial_lib_state \<lparr>body = Text request_s3\<rparr>)))
     = [''thread-chat-1'']
   \<and> map dispatch_threadId
     (fst (snd (buffered_handler example_server_env initial_lib_state
        \<lparr>body = Text request_lambda\<rparr>)))
     = [''thread-chat-1'']
   \<and> map dispatch_threadId
     (fst (snd (streaming_handler example_server_env initial_lib_state \<lparr>body = Text request_s3\<rparr>)))
     = [''s3Agent::thread-chat-1'']"
proof -
  have s3: "''s3Agent'' \<in> set AWS_AGENT_NAMES" and la: "''lambdaAgent'' \<in> set AWS_AGENT_NAMES"
    by (simp_all add: agent_name_defs)
  have v1: "EventSchema example_JSON_parse \<lparr>body = Text request_s3\<rparr> =
      Inr \<lparr>query = ''list buckets'', threadId = ''thread-chat-1'',
           resourceId = ''resource-chat-1'', agent = ''s3Agent''\<rparr>"
    by (simp add: EventSchema_envelope_known example_parse_s3 agent_name_defs)
  have v2: "EventSchema example_JSON_parse \<lparr>body = Text request_lambda\<rparr> =
      Inr \<lparr>query = ''list functions'', threadId = ''thread-chat-1'',
           resourceId = ''resource-chat-1'', agent = ''lambdaAgent''\<rparr>"
    by (simp add: EventSchema_envelope_known example_parse_lambda agent_name_defs)
  have b1: "map dispatch_threadId
     (fst (snd (buffered_handler example_server_env initial_lib_state \<lparr>body = Text request_s3\<rparr>)))
     = [''thread-chat-1'']"
    by (simp add: buffered_handler_def example_server_env_fields v1 getMastraInstance_initial
        example_mastra_getAgent [OF s3] example_agent_fields)
  have b2: "map dispatch_threadId
     (fst (snd (buffered_handler example_server_env initial_lib_state
        \<lparr>body = Text request_lambda\<rparr>)))
     = [''thread-chat-1'']"
    by (simp add: buffered_handler_def example_server_env_fields v2 getMastraInstance_initial
        example_mastra_getAgent [OF la] example_agent_fields)
  have b3: "map dispatch_threadId
     (fst (snd (streaming_handler example_server_env initial_lib_state \<lparr>body = Text request_s3\<rparr>)))
     = [''s3Agent::thread-chat-1'']"
    by (simp add: streaming_handler_def example_server_env_fields v1 getMastraInstance_initial
        example_mastra_getAgent [OF s3] example_agent_fields namespacedThreadId_def)
  from b1 b2 b3 show ?thesis by blast
qed

section \<open>The default agent\<close>

lemma EventSchema_missing_agent:
  assumes "body ev = Text s" and "parse s = Some (JObj kvs)"
    and "map_of kvs ''agent'' = None"
    and "map_of kvs ''query'' = Some (JStr q)"
    and "map_of kvs ''threadId'' = Some (JStr t)"
    and "map_of kvs ''resourceId'' = Some (JStr r)"
  shows "EventSchema parse ev =
           Inr \<lparr>query = q, threadId = t, resourceId = r, agent = ''awsAgent''\<rparr>"
  using assms by (simp add: EventSchema_def EventBodySchema_def AWS_AGENT_def)

lemma buffered_handler_valid_not_400:
  "EventSchema (JSON_parse env) ev = Inr b \<Longrightarrow>
   statusCode (fst (buffered_handler env st ev)) \<noteq> 400"
  by (auto simp: buffered_handler_def buffered_500_def Let_def
      split: sum.splits option.splits prod.splits)

text \<open>
  Claim C10. An envelope with the three string fields and no \<open>agent\<close> field passes
  validation with \<open>agent = awsAgent\<close>; the buffered handler does not answer 400, and where
  the directory resolves and has that agent, the one call that reaches an agent is
  \<open>generate\<close> on \<^verbatim>\<open>awsAgent\<close> in the buffered handler and \<open>stream\<close> on
  \<^verbatim>\<open>awsAgent\<close> in the streaming handler.
\<close>

theorem missing_agent_defaults_to_awsAgent:
  assumes "body ev = Text s" and "JSON_parse env s = Some (JObj kvs)"
    and "map_of kvs ''agent'' = None"
    and "map_of kvs ''query'' = Some (JStr q)"
    and "map_of kvs ''threadId'' = Some (JStr t)"
    and "map_of kvs ''resourceId'' = Some (JStr r)"
    and "settled env (fst (getMastraInstance st)) = Inr m"
    and "getAgent m ''awsAgent'' = Inr (Some a)"
  shows "EventSchema (JSON_parse env) ev =
           Inr \<lparr>query = q, threadId = t, resourceId = r, agent = ''awsAgent''\<rparr>
       \<and> statusCode (fst (buffered_handler env st ev)) \<noteq> 400
       \<and> fst (snd (buffered_handler env st ev)) =
           [Generate ''awsAgent'' [(''user'', q)]
              \<lparr>opt_threadId = t, opt_resourceId = r, maxSteps = 5, maxRetries = 2,
               temperature = None\<rparr>]
       \<and> fst (snd (streaming_handler env st ev)) =
           [Stream ''awsAgent'' [(''user'', q)]
              \<lparr>opt_threadId = ''awsAgent::'' @ t, opt_resourceId = r, maxSteps = 10,
               maxRetries = 2, temperature = Some 0\<rparr>]"
proof -
  have v: "EventSchema (JSON_parse env) ev =
           Inr \<lparr>query = q, threadId = t, resourceId = r, agent = ''awsAgent''\<rparr>"
    using assms(1-6) by (rule EventSchema_missing_agent [where parse = "JSON_parse env"])
  have n: "statusCode (fst (buffered_handler env st ev)) \<noteq> 400"
    using v by (rule buffered_handler_valid_not_400)
  obtain p st' where g: "getMastraInstance st = (p, st')" by (cases "getMastraInstance st")
  with assms(7) have sp: "settled env p = Inr m" by simp
  have d: "fst (snd (buffered_handler env st ev)) =
           [Generate ''awsAgent'' [(''user'', q)]
              \<lparr>opt_threadId = t, opt_resourceId = r, maxSteps = 5, maxRetries = 2,
               temperature = None\<rparr>]"
    by (simp add: buffered_handler_def v g sp assms(8) Let_def split: sum.splits)
  have e: "fst (snd (streaming_handler env st ev)) =
           [Stream ''awsAgent'' [(''user'', q)]
              \<lparr>opt_threadId = ''awsAgent::'' @ t, opt_resourceId = r, maxSteps = 10,
               maxRetries = 2, temperature = Some 0\<rparr>]"
    by (simp add: streaming_handler_def v g sp assms(8) namespacedThreadId_def Let_def
        split: sum.splits)
  from v n d e show ?thesis by blast
qed

theorem missing_agent_defaults_to_awsAgent_witness:
  "EventSchema example_JSON_parse \<lparr>body = Text request_no_agent\<rparr> =
     Inr \<lparr>query = ''hi'', threadId = ''thread-chat-1'', resourceId = ''resource-chat-1'',
          agent = ''awsAgent''\<rparr>
   \<and> statusCode (fst (buffered_handler example_server_env initial_lib_state
        \<lparr>body = Text request_no_agent\<rparr>)) \<noteq> 400
   \<and> fst (snd (buffered_handler example_server_env initial_lib_state
        \<lparr>body = Text request_no_agent\<rparr>)) =
       [Generate ''awsAgent'' [(''user'', ''hi'')]
          \<lparr>opt_threadId = ''thread-chat-1'', opt_resourceId = ''resource-chat-1'',
           maxSteps = 5, maxRetries = 2, temperature = None\<rparr>]
   \<and> fst (snd (streaming_handler example_server_env initial_lib_state
        \<lparr>body = Text request_no_agent\<rparr>)) =
       [Stream ''awsAgent'' [(''user'', ''hi'')]
          \<lparr>opt_threadId = ''awsAgent::'' @ ''thread-chat-1'',
           opt_resourceId = ''resource-chat-1'', maxSteps = 10, maxRetries = 2,
           temperature = Some 0\<rparr>]"
proof -
  let ?kvs = "[(''query'', JStr ''hi''), (''threadId'', JStr ''thread-chat-1''),
               (''resourceId'', JStr ''resource-chat-1'')]"
  have h1: "body \<lparr>body = Text request_no_agent\<rparr> = Text request_no_agent" by simp
  have h2: "JSON_parse example_server_env request_no_agent = Some (JObj ?kvs)"
    by (simp add: example_server_env_fields example_parse_no_agent envelope_def)
  have h3: "map_of ?kvs ''agent'' = None" by simp
  have h4: "map_of ?kvs ''query'' = Some (JStr ''hi'')" by simp
  have h5: "map_of ?kvs ''threadId'' = Some (JStr ''thread-chat-1'')" by simp
  have h6: "map_of ?kvs ''resourceId'' = Some (JStr ''resource-chat-1'')" by simp
  have h7: "settled example_server_env (fst (getMastraInstance initial_lib_state))
              = Inr example_mastra"
    by (simp add: example_server_env_fields)
  have h8: "getAgent example_mastra ''awsAgent'' = Inr (Some (example_agent ''awsAgent''))"
    by (simp add: example_mastra_getAgent agent_name_defs)
  have p: "JSON_parse example_server_env = example_JSON_parse"
    by (simp add: example_server_env_fields)
  from missing_agent_defaults_to_awsAgent [OF h1 h2 h3 h4 h5 h6 h7 h8]
  show ?thesis unfolding p .
qed

section \<open>Initialization of the directory\<close>

lemma getMastraInstance_calls_set:
  "mastraInstancePromise st = Some p \<Longrightarrow> getMastraInstance_calls n st = (replicate n p, st)"
  by (induction n) (auto simp: getMastraInstance_def)

lemma getMastraInstance_calls_initial:
  "getMastraInstance_calls (Suc n) initial_lib_state =
     (replicate (Suc n) 0, \<lparr>mastraInstancePromise = Some 0, initializeMastra_calls = 1\<rparr>)"
  by (simp add: getMastraInstance_initial getMastraInstance_calls_set)

lemma initialized_once_initial: "initialized_once initial_lib_state"
  by (simp add: initialized_once_def initial_lib_state_def)

lemma getMastraInstance_initialized_once:
  "initialized_once st \<Longrightarrow> getMastraInstance st = (p, st') \<Longrightarrow> p = 0 \<and> initialized_once st'"
  by (auto simp: initialized_once_def getMastraInstance_def initializeMastra_def
      split: option.splits)

lemma buffered_handler_initialized_once:
  assumes "initialized_once st" and "buffered_handler env st ev = (res, ds, st')"
  shows "initialized_once st'"
proof (cases "EventSchema (JSON_parse env) ev")
  case (Inl issues)
  with assms show ?thesis by (simp add: buffered_handler_def)
next
  case (Inr b)
  obtain p st1 where g: "getMastraInstance st = (p, st1)" by (cases "getMastraInstance st")
  with assms(1) have i: "initialized_once st1" by (simp add: getMastraInstance_initialized_once)
  from assms(2) Inr g have "st' = st1"
    by (auto simp: buffered_handler_def Let_def split: sum.splits option.splits)
  with i show ?thesis by simp
qed

lemma streaming_handler_initialized_once:
  assumes "initialized_once st" and "streaming_handler env st ev = (ops, ds, st')"
  shows "initialized_once st'"
proof (cases "EventSchema (JSON_parse env) ev")
  case (Inl issues)
  with assms show ?thesis by (simp add: streaming_handler_def)
next
  case (Inr b)
  obtain p st1 where g: "getMastraInstance st = (p, st1)" by (cases "getMastraInstance st")
  with assms(1) have i: "initialized_once st1" by (simp add: getMastraInstance_initialized_once)
  from assms(2) Inr g have "st' = st \<or> st' = st1"
    by (auto simp: streaming_handler_def Let_def split: sum.splits option.splits if_splits)
  with i assms(1) show ?thesis by auto
qed

text \<open>
  Claim C7. From the state in which the module is loaded, any number of calls of
  \<open>getMastraInstance\<close> all return the promise of the first \<open>initializeMastra\<close> call, and
  \<open>initializeMastra\<close> has run once if there was a call and not at all otherwise.
\<close>

theorem getMastraInstance_initializes_once:
  "fst (getMastraInstance_calls n initial_lib_state) = replicate n 0
   \<and> initializeMastra_calls (snd (getMastraInstance_calls n initial_lib_state)) = min n 1"
proof (cases n)
  case 0
  then show ?thesis by (simp add: initial_lib_state_def)
next
  case (Suc k)
  show ?thesis unfolding Suc getMastraInstance_calls_initial by simp
qed

section \<open>The streaming transport\<close>

lemma length_read_loop:
  "length (read_loop dec held (map Some vs)) = length vs"
  by (induction vs arbitrary: held) (auto split: prod.splits)

lemma decode_stream_append:
  "decode_stream dec held (xs @ ys) =
     (fst (decode_stream dec held xs) @ fst (decode_stream dec (snd (decode_stream dec held xs)) ys),
      snd (decode_stream dec (snd (decode_stream dec held xs)) ys))"
  by (induction xs arbitrary: held) (simp_all split: prod.splits)

lemma concat_read_loop:
  "concat (read_loop dec held (map Some vs)) = fst (decode_stream dec held (concat vs))"
  by (induction vs arbitrary: held) (simp_all add: decode_stream_append split: prod.splits)

lemma take_read_loop:
  "take k (read_loop dec held (map Some vs)) = read_loop dec held (map Some (take k vs))"
proof (induction vs arbitrary: held k)
  case Nil
  show ?case by simp
next
  case (Cons v vs)
  show ?case by (cases k) (simp_all add: Cons.IH split: prod.splits)
qed

lemma read_loop_transparent:
  "\<forall>v \<in> set vs. decode_stream dec [] v = (text_of v, []) \<Longrightarrow>
   read_loop dec [] (map Some vs) = map text_of vs"
  by (induction vs) auto

lemma example_client_env_fields:
  "credentialProvider example_client_env p = Inr (Some (Credentials ''key-id'' ''key'' None))"
  "new_URL example_client_env = example_new_URL"
  "sign example_client_env = example_sign"
  "fetch example_client_env = example_fetch"
  "decoder example_client_env = utf8_decoder"
  by (simp_all add: example_client_env_def)

lemma example_new_URL_hosts:
  "example_new_URL ''https://stream.example/'' = Inr (URL ''stream.example'' ''/'' ''https:'')"
  "example_new_URL ''https://split.example/'' = Inr (URL ''split.example'' ''/'' ''https:'')"
  "example_new_URL ''https://forbidden.example/'' = Inr (URL ''forbidden.example'' ''/'' ''https:'')"
  "example_new_URL ''https://nobody.example/'' = Inr (URL ''nobody.example'' ''/'' ''https:'')"
  "example_new_URL ''https://gateway.example/'' = Inr (URL ''gateway.example'' ''/'' ''https:'')"
  by (simp_all add: example_new_URL_def)

lemma example_fetch_hosts:
  "example_fetch ''https://stream.example/'' r = Inr response_streaming"
  "example_fetch ''https://split.example/'' r = Inr response_split"
  "example_fetch ''https://forbidden.example/'' r = Inr response_forbidden"
  "example_fetch ''https://nobody.example/'' r = Inr response_no_body"
  "example_fetch ''https://gateway.example/'' r = Inr response_bad_gateway"
  by (simp_all add: example_fetch_def)

lemma decimal_403: "decimal 403 = ''403''"
  by (simp add: decimal.simps digit_def)

text \<open>
  Claim C4. Once \<open>fetch\<close> has resolved with a response, if its status is not in the range
  200 to 299 or it has no body, the invocation fails and \<open>onChunk\<close> has not been called.
  The error names the status when the text of the refused response can be read, and says that
  there is no body when the status is fine.
\<close>

theorem streaming_fails_before_any_fragment:
  assumes "credentialProvider env profile_name = Inr (Some creds)"
    and "new_URL env functionUrl = Inr u"
    and "sign env (Some creds) region_name ''lambda''
           (HttpRequest ''POST'' (hostname u) (pathname u) (protocol u) (json_headers u) body_text)
         = Inr signedRequest"
    and "fetch env functionUrl signedRequest = Inr resp"
    and "\<not> ok resp \<or> response_body resp = None"
  shows "\<exists>e. invokeStreamingRequest env functionUrl region_name profile_name body_text = (Inl e, [])
           \<and> (\<not> ok resp \<and> (\<exists>errorText. text_result resp = Inr errorText) \<longrightarrow>
                e = Error (''Streaming request failed with status '' @ decimal (status resp)))
           \<and> (ok resp \<longrightarrow>
                e = Error ''No response body received from the streaming request'')"
proof (cases "ok resp")
  case True
  with assms(5) have "response_body resp = None" by simp
  with True assms(1-4) show ?thesis by (simp add: invokeStreamingRequest_def)
next
  case False
  show ?thesis
  proof (cases "text_result resp")
    case (Inl e)
    with False assms(1-4) show ?thesis by (simp add: invokeStreamingRequest_def)
  next
    case (Inr t)
    with False assms(1-4) show ?thesis by (simp add: invokeStreamingRequest_def)
  qed
qed

theorem streaming_fails_before_any_fragment_witness:
  "\<not> ok response_forbidden
   \<and> invokeStreamingRequest example_client_env ''https://forbidden.example/'' ''us-east-1''
       (Some ''default'') request_s3
     = (Inl (Error ''Streaming request failed with status 403''), [])"
proof -
  let ?u = "URL ''forbidden.example'' ''/'' ''https:''"
  let ?req = "HttpRequest ''POST'' (hostname ?u) (pathname ?u) (protocol ?u) (json_headers ?u)
                request_s3"
  have h1: "credentialProvider example_client_env (Some ''default'')
              = Inr (Some (Credentials ''key-id'' ''key'' None))"
    by (simp add: example_client_env_fields)
  have h2: "new_URL example_client_env ''https://forbidden.example/'' = Inr ?u"
    by (simp add: example_client_env_fields example_new_URL_hosts)
  obtain signed where h3: "sign example_client_env (Some (Credentials ''key-id'' ''key'' None))
      ''us-east-1'' ''lambda'' ?req = Inr signed"
    by (simp add: example_client_env_fields example_sign_def)
  have h4: "fetch example_client_env ''https://forbidden.example/'' signed = Inr response_forbidden"
    by (simp add: example_client_env_fields example_fetch_hosts)
  have nok: "\<not> ok response_forbidden" by (simp add: ok_def response_forbidden_def)
  then have h5: "\<not> ok response_forbidden \<or> response_body response_forbidden = None" by simp
  have t: "\<exists>errorText. text_result response_forbidden = Inr errorText"
    by (simp add: response_forbidden_def)
  have st: "status response_forbidden = 403" by (simp add: response_forbidden_def)
  from streaming_fails_before_any_fragment [OF h1 h2 h3 h4 h5] nok t
  have "invokeStreamingRequest example_client_env ''https://forbidden.example/'' ''us-east-1''
       (Some ''default'') request_s3
     = (Inl (Error (''Streaming request failed with status '' @ decimal (status response_forbidden))), [])"
    by blast
  then have "invokeStreamingRequest example_client_env ''https://forbidden.example/'' ''us-east-1''
       (Some ''default'') request_s3
     = (Inl (Error ''Streaming request failed with status 403''), [])"
    by (simp add: st decimal_403)
  with nok show ?thesis by blast
qed

lemma utf8_decoder_ascii:
  "(of_char b :: nat) < 0x80 \<Longrightarrow> utf8_decoder [] b = ([b], [])"
  by (simp add: utf8_decoder_def utf8_start_def utf8_length_def)

lemma decode_stream_ascii:
  "\<forall>b \<in> set v. (of_char b :: nat) < 0x80 \<Longrightarrow> decode_stream utf8_decoder [] v = (v, [])"
  by (induction v) (simp_all add: utf8_decoder_ascii)

lemma decode_stream_split_first:
  "decode_stream utf8_decoder [] [CHR ''H'', CHR 0xC3] = (''H'', [CHR 0xC3])"
  by (simp add: utf8_decoder_def utf8_start_def utf8_length_def)

lemma decode_stream_split_whole:
  "decode_stream utf8_decoder [] [CHR ''H'', CHR 0xC3, CHR 0xA9] = ([CHR ''H'', CHR 0xC3, CHR 0xA9], [])"
  by (simp add: utf8_decoder_def utf8_start_def utf8_length_def utf8_continuation_def)

text \<open>
  Claim C5. Once \<open>fetch\<close> has resolved with a response of status 200 to 299 whose body
  delivers the fragments \<open>vs\<close> and then ends, the invocation succeeds and \<open>onChunk\<close> has
  been called once for each fragment, in the order of arrival: after any number \<open>k\<close> of
  fragments, the arguments of the first \<open>k\<close> calls, concatenated, are the text that the
  decoder gives for the bytes of the first \<open>k\<close> fragments taken as one sequence, whatever
  the places where the fragments are cut; so the arguments of all the calls, concatenated,
  are the decoded text of the whole response. Where the decoder turns each fragment into its
  text \<open>text_of v\<close> and holds nothing back, the arguments of the calls are the texts of the
  fragments.
\<close>

theorem streaming_delivers_fragments_in_order:
  assumes "credentialProvider env profile_name = Inr (Some creds)"
    and "new_URL env functionUrl = Inr u"
    and "sign env (Some creds) region_name ''lambda''
           (HttpRequest ''POST'' (hostname u) (pathname u) (protocol u) (json_headers u) body_text)
         = Inr signedRequest"
    and "fetch env functionUrl signedRequest = Inr resp"
    and "ok resp" and "response_body resp = Some reader"
    and "reads reader = map Some vs" and "ending reader = None"
  shows "\<exists>calls. invokeStreamingRequest env functionUrl region_name profile_name body_text
                    = (Inr (), calls)
           \<and> length calls = length vs
           \<and> (\<forall>k \<le> length vs.
                concat (take k calls) = fst (decode_stream (decoder env) [] (concat (take k vs))))
           \<and> concat calls = fst (decode_stream (decoder env) [] (concat vs))
           \<and> ((\<forall>v \<in> set vs. decode_stream (decoder env) [] v = (text_of v, [])) \<longrightarrow>
                calls = map text_of vs \<and> concat calls = concat (map text_of vs))"
proof -
  let ?calls = "read_loop (decoder env) [] (map Some vs)"
  have r: "invokeStreamingRequest env functionUrl region_name profile_name body_text
             = (Inr (), ?calls)"
    using assms by (simp add: invokeStreamingRequest_def)
  have l: "length ?calls = length vs"
    by (rule length_read_loop)
  have p: "concat (take k ?calls) = fst (decode_stream (decoder env) [] (concat (take k vs)))"
    for k
    by (simp only: take_read_loop concat_read_loop)
  have c: "concat ?calls = fst (decode_stream (decoder env) [] (concat vs))"
    by (rule concat_read_loop)
  have t: "?calls = map text_of vs"
    if "\<forall>v \<in> set vs. decode_stream (decoder env) [] v = (text_of v, [])"
    using that by (rule read_loop_transparent)
  from r l p c t show ?thesis by auto
qed

theorem streaming_delivers_fragments_in_order_witness:
  "ok response_streaming
   \<and> invokeStreamingRequest example_client_env ''https://stream.example/'' ''us-east-1''
       (Some ''default'') request_s3
     = (Inr (), [''Hel'', ''lo '', ''World''])
   \<and> concat [''Hel'', ''lo '', ''World''] = ''Hello World''
   \<and> ok response_split
   \<and> invokeStreamingRequest example_client_env ''https://split.example/'' ''us-east-1''
       (Some ''default'') request_s3
     = (Inr (), [''H'', [CHR 0xC3, CHR 0xA9]])
   \<and> concat [''H'', [CHR 0xC3, CHR 0xA9]] = [CHR ''H'', CHR 0xC3, CHR 0xA9]"
proof -
  let ?creds = "Credentials ''key-id'' ''key'' None"
  have h1: "credentialProvider example_client_env (Some ''default'') = Inr (Some ?creds)"
    by (simp add: example_client_env_fields)
  have dec: "decoder example_client_env = utf8_decoder"
    by (simp add: example_client_env_fields)
  have first: "invokeStreamingRequest example_client_env ''https://stream.example/'' ''us-east-1''
       (Some ''default'') request_s3 = (Inr (), [''Hel'', ''lo '', ''World''])"
  proof -
    let ?u = "URL ''stream.example'' ''/'' ''https:''"
    let ?req = "HttpRequest ''POST'' (hostname ?u) (pathname ?u) (protocol ?u) (json_headers ?u)
                  request_s3"
    let ?vs = "[''Hel'', ''lo '', ''World'']"
    let ?reader = "\<lparr>reads = [Some ''Hel'', Some ''lo '', Some ''World''], ending = None\<rparr>"
    have h2: "new_URL example_client_env ''https://stream.example/'' = Inr ?u"
      by (simp add: example_client_env_fields example_new_URL_hosts)
    obtain signed where h3: "sign example_client_env (Some ?creds) ''us-east-1'' ''lambda'' ?req
        = Inr signed"
      by (simp add: example_client_env_fields example_sign_def)
    have h4: "fetch example_client_env ''https://stream.example/'' signed = Inr response_streaming"
      by (simp add: example_client_env_fields example_fetch_hosts)
    have h5: "ok response_streaming" by (simp add: ok_def response_streaming_def)
    have h6: "response_body response_streaming = Some ?reader"
      by (simp add: response_streaming_def)
    have h7: "reads ?reader = map Some ?vs" by simp
    have h8: "ending ?reader = None" by simp
    have d: "\<forall>v \<in> set ?vs. decode_stream (decoder example_client_env) [] v = (id v, [])"
      unfolding dec by (auto simp del: decode_stream.simps intro!: decode_stream_ascii)
    from streaming_delivers_fragments_in_order [OF h1 h2 h3 h4 h5 h6 h7 h8, of id] d
    have "invokeStreamingRequest example_client_env ''https://stream.example/'' ''us-east-1''
         (Some ''default'') request_s3 = (Inr (), map id ?vs)"
      by blast
    then show ?thesis by simp
  qed
  have second: "invokeStreamingRequest example_client_env ''https://split.example/'' ''us-east-1''
       (Some ''default'') request_s3 = (Inr (), [''H'', [CHR 0xC3, CHR 0xA9]])"
  proof -
    let ?u = "URL ''split.example'' ''/'' ''https:''"
    let ?req = "HttpRequest ''POST'' (hostname ?u) (pathname ?u) (protocol ?u) (json_headers ?u)
                  request_s3"
    let ?vs = "[[CHR ''H'', CHR 0xC3], [CHR 0xA9]]"
    let ?reader = "\<lparr>reads = [Some [CHR ''H'', CHR 0xC3], Some [CHR 0xA9]], ending = None\<rparr>"
    have h2: "new_URL example_client_env ''https://split.example/'' = Inr ?u"
      by (simp add: example_client_env_fields example_new_URL_hosts)
    obtain signed where h3: "sign example_client_env (Some ?creds) ''us-east-1'' ''lambda'' ?req
        = Inr signed"
      by (simp add: example_client_env_fields example_sign_def)
    have h4: "fetch example_client_env ''https://split.example/'' signed = Inr response_split"
      by (simp add: example_client_env_fields example_fetch_hosts)
    have h5: "ok response_split" by (simp add: ok_def response_split_def)
    have h6: "response_body response_split = Some ?reader"
      by (simp add: response_split_def)
    have h7: "reads ?reader = map Some ?vs" by simp
    have h8: "ending ?reader = None" by simp
    from streaming_delivers_fragments_in_order [OF h1 h2 h3 h4 h5 h6 h7 h8]
    obtain calls where r: "invokeStreamingRequest example_client_env ''https://split.example/''
          ''us-east-1'' (Some ''default'') request_s3 = (Inr (), calls)"
      and l: "length calls = length ?vs"
      and p: "\<forall>k \<le> length ?vs. concat (take k calls)
                = fst (decode_stream (decoder example_client_env) [] (concat (take k ?vs)))"
      and c: "concat calls = fst (decode_stream (decoder example_client_env) [] (concat ?vs))"
      by blast
    from l obtain a b where ab: "calls = [a, b]"
      by (cases calls; cases "tl calls"; cases "tl (tl calls)") auto
    from p have "concat (take 1 calls)
        = fst (decode_stream (decoder example_client_env) [] (concat (take 1 ?vs)))"
      by simp
    then have a: "a = ''H''"
      unfolding dec ab by (simp del: decode_stream.simps add: decode_stream_split_first)
    from c have "a @ b = [CHR ''H'', CHR 0xC3, CHR 0xA9]"
      unfolding dec ab by (simp del: decode_stream.simps add: decode_stream_split_whole)
    with a have b: "b = [CHR 0xC3, CHR 0xA9]" by simp
    from r ab a b show ?thesis by simp
  qed
  have o1: "ok response_streaming" by (simp add: ok_def response_streaming_def)
  have o2: "ok response_split" by (simp add: ok_def response_split_def)
  from first second o1 o2 show ?thesis by simp
qed

lemma streaming_handler_writes_in_order:
  assumes "EventSchema (JSON_parse env) ev = Inr b" and "agent b \<noteq> ''awsAgentNetwork''"
    and "settled env (fst (getMastraInstance st)) = Inr m"
    and "getAgent m (agent b) = Inr (Some a)"
    and "stream a [(''user'', query b)]
           \<lparr>opt_threadId = namespacedThreadId (agent b) (threadId b),
            opt_resourceId = resourceId b, maxSteps = 10, maxRetries = 2, temperature = Some 0\<rparr>
         = Inr \<lparr>chunks = cs, failure = None\<rparr>"
  shows "fst (streaming_handler env st ev) = SetContentType ''text/plain'' # map Write cs @ [End]"
proof -
  obtain p st' where g: "getMastraInstance st = (p, st')" by (cases "getMastraInstance st")
  with assms(3) have sp: "settled env p = Inr m" by simp
  show ?thesis
    by (simp add: streaming_handler_def assms(1,2,4,5) g sp write_text_stream_def Let_def)
qed

section \<open>The buffered contract\<close>

lemma buffered_handler_success:
  assumes "EventSchema (JSON_parse env) ev = Inr b"
    and "settled env (fst (getMastraInstance st)) = Inr m"
    and "getAgent m (agent b) = Inr (Some a)"
    and "generate a [(''user'', query b)]
           \<lparr>opt_threadId = threadId b, opt_resourceId = resourceId b, maxSteps = 5,
            maxRetries = 2, temperature = None\<rparr> = Inr text"
  shows "fst (buffered_handler env st ev) =
           \<lparr>statusCode = 200,
            result_body = JSON_stringify env
              (JObj [(''message'', JStr text), (''agent'', JStr (agent b))])\<rparr>"
proof -
  obtain p st' where g: "getMastraInstance st = (p, st')" by (cases "getMastraInstance st")
  with assms(2) have sp: "settled env p = Inr m" by simp
  show ?thesis by (simp add: buffered_handler_def assms(1,3,4) g sp Let_def)
qed

lemma buffered_handler_failure:
  assumes "EventSchema (JSON_parse env) ev = Inr b"
    and "\<not> (\<exists>m a text. settled env (fst (getMastraInstance st)) = Inr m
             \<and> getAgent m (agent b) = Inr (Some a)
             \<and> generate a [(''user'', query b)]
                  \<lparr>opt_threadId = threadId b, opt_resourceId = resourceId b, maxSteps = 5,
                   maxRetries = 2, temperature = None\<rparr> = Inr text)"
  shows "\<exists>err. fst (buffered_handler env st ev) =
           \<lparr>statusCode = 500,
            result_body = JSON_stringify env
              (JObj [(''message'', JStr ''Internal Server Error''), (''error'', JStr err)])\<rparr>"
proof -
  obtain p st' where g: "getMastraInstance st = (p, st')" by (cases "getMastraInstance st")
  show ?thesis
    using assms(2)
    by (auto simp: buffered_handler_def assms(1) g buffered_500_def internal_server_error_def
        Let_def split: sum.splits option.splits)
qed

lemma invokeSignedApiRequest_not_ok:
  assumes "credentialProvider cenv profile_name = Inr creds"
    and "new_URL cenv endpoint = Inr u"
    and "sign cenv creds region_name ''execute-api''
           (HttpRequest (case method_opt of None \<Rightarrow> ''POST'' | Some m \<Rightarrow> m)
              (hostname u) (pathname u) (protocol u) (json_headers u) body_text)
         = Inr signedRequest"
    and "fetch cenv endpoint signedRequest = Inr resp"
    and "json_result resp = Inr responseBody"
  shows "invokeSignedApiRequest cenv endpoint region_name profile_name method_opt body_text =
           (if ok resp then Inr responseBody
            else Inl (Error (''Request failed with status '' @ decimal (status resp))))"
  using assms by (simp add: invokeSignedApiRequest_def Let_def)

text \<open>
  Claim C8, as amended. For a validly parsed envelope, the buffered handler answers 200 with
  \<open>{message: text, agent: name}\<close> when the directory resolves, has the agent, and
  \<open>generate\<close> resolves with \<open>text\<close>; in every other case it answers 500 with
  \<open>{message: "Internal Server Error", error: string}\<close>. The buffered client, once
  \<open>fetch\<close> has resolved with a response whose body parses as JSON and whose status is not
  in the range 200 to 299, throws an error whose message carries the status.
\<close>

theorem buffered_contract:
  assumes "EventSchema (JSON_parse env) ev = Inr b"
    and "credentialProvider cenv profile_name = Inr creds"
    and "new_URL cenv endpoint = Inr u"
    and "sign cenv creds region_name ''execute-api''
           (HttpRequest (case method_opt of None \<Rightarrow> ''POST'' | Some m \<Rightarrow> m)
              (hostname u) (pathname u) (protocol u) (json_headers u) body_text)
         = Inr signedRequest"
    and "fetch cenv endpoint signedRequest = Inr resp"
    and "json_result resp = Inr responseBody" and "\<not> ok resp"
  shows "(\<forall>m a text.
            settled env (fst (getMastraInstance st)) = Inr m
            \<and> getAgent m (agent b) = Inr (Some a)
            \<and> generate a [(''user'', query b)]
                 \<lparr>opt_threadId = threadId b, opt_resourceId = resourceId b, maxSteps = 5,
                  maxRetries = 2, temperature = None\<rparr> = Inr text
            \<longrightarrow> fst (buffered_handler env st ev) =
                  \<lparr>statusCode = 200,
                   result_body = JSON_stringify env
                     (JObj [(''message'', JStr text), (''agent'', JStr (agent b))])\<rparr>)
       \<and> (\<not> (\<exists>m a text.
               settled env (fst (getMastraInstance st)) = Inr m
               \<and> getAgent m (agent b) = Inr (Some a)
               \<and> generate a [(''user'', query b)]
                    \<lparr>opt_threadId = threadId b, opt_resourceId = resourceId b, maxSteps = 5,
                     maxRetries = 2, temperature = None\<rparr> = Inr text)
            \<longrightarrow> (\<exists>err. fst (buffered_handler env st ev) =
                  \<lparr>statusCode = 500,
                   result_body = JSON_stringify env
                     (JObj [(''message'', JStr ''Internal Server Error''),
                            (''error'', JStr err)])\<rparr>))
       \<and> invokeSignedApiRequest cenv endpoint region_name profile_name method_opt body_text =
           Inl (Error (''Request failed with status '' @ decimal (status resp)))"
proof -
  have c: "invokeSignedApiRequest cenv endpoint region_name profile_name method_opt body_text =
           Inl (Error (''Request failed with status '' @ decimal (status resp)))"
    using invokeSignedApiRequest_not_ok [OF assms(2-6)] assms(7) by simp
  from buffered_handler_success [OF assms(1)] buffered_handler_failure [OF assms(1)] c
  show ?thesis by blast
qed

theorem buffered_contract_witness:
  "fst (buffered_handler example_server_env initial_lib_state \<lparr>body = Text request_s3\<rparr>) =
     \<lparr>statusCode = 200,
      result_body = example_stringify
        (JObj [(''message'', JStr ''answer of s3Agent''), (''agent'', JStr ''s3Agent'')])\<rparr>
   \<and> \<not> ok response_forbidden
   \<and> invokeSignedApiRequest example_client_env ''https://forbidden.example/'' ''us-east-1''
       (Some ''default'') (Some ''POST'') request_s3 =
       Inl (Error ''Request failed with status 403'')"
proof -
  let ?b = "\<lparr>query = ''list buckets'', threadId = ''thread-chat-1'',
             resourceId = ''resource-chat-1'', agent = ''s3Agent''\<rparr>"
  let ?u = "URL ''forbidden.example'' ''/'' ''https:''"
  let ?req = "HttpRequest (case Some ''POST'' of None \<Rightarrow> ''POST'' | Some m \<Rightarrow> m)
                (hostname ?u) (pathname ?u) (protocol ?u) (json_headers ?u) request_s3"
  have s3: "''s3Agent'' \<in> set AWS_AGENT_NAMES" by (simp add: agent_name_defs)
  have h1: "EventSchema (JSON_parse example_server_env) \<lparr>body = Text request_s3\<rparr> = Inr ?b"
    by (simp add: example_server_env_fields EventSchema_envelope_known example_parse_s3
        agent_name_defs)
  have h2: "credentialProvider example_client_env (Some ''default'')
              = Inr (Some (Credentials ''key-id'' ''key'' None))"
    by (simp add: example_client_env_fields)
  have h3: "new_URL example_client_env ''https://forbidden.example/'' = Inr ?u"
    by (simp add: example_client_env_fields example_new_URL_hosts)
  obtain signed where h4: "sign example_client_env (Some (Credentials ''key-id'' ''key'' None))
      ''us-east-1'' ''execute-api'' ?req = Inr signed"
    by (simp add: example_client_env_fields example_sign_def)
  have h5: "fetch example_client_env ''https://forbidden.example/'' signed = Inr response_forbidden"
    by (simp add: example_client_env_fields example_fetch_hosts)
  have h6: "json_result response_forbidden = Inr (JObj [(''message'', JStr ''Forbidden'')])"
    by (simp add: response_forbidden_def)
  have h7: "\<not> ok response_forbidden" by (simp add: ok_def response_forbidden_def)
  have st: "status response_forbidden = 403" by (simp add: response_forbidden_def)
  have g: "settled example_server_env (fst (getMastraInstance initial_lib_state))
             = Inr example_mastra
           \<and> getAgent example_mastra (agent ?b) = Inr (Some (example_agent ''s3Agent''))
           \<and> generate (example_agent ''s3Agent'') [(''user'', query ?b)]
                \<lparr>opt_threadId = threadId ?b, opt_resourceId = resourceId ?b, maxSteps = 5,
                 maxRetries = 2, temperature = None\<rparr> = Inr ''answer of s3Agent''"
    by (simp add: example_server_env_fields example_mastra_getAgent [OF s3] example_agent_fields)
  note c = buffered_contract [OF h1 h2 h3 h4 h5 h6 h7, of initial_lib_state]
  from c g have a: "fst (buffered_handler example_server_env initial_lib_state
                      \<lparr>body = Text request_s3\<rparr>) =
     \<lparr>statusCode = 200,
      result_body = JSON_stringify example_server_env
        (JObj [(''message'', JStr ''answer of s3Agent''), (''agent'', JStr (agent ?b))])\<rparr>"
    by blast
  from c have e: "invokeSignedApiRequest example_client_env ''https://forbidden.example/''
       ''us-east-1'' (Some ''default'') (Some ''POST'') request_s3 =
       Inl (Error (''Request failed with status '' @ decimal (status response_forbidden)))"
    by blast
  from a have a': "fst (buffered_handler example_server_env initial_lib_state
                      \<lparr>body = Text request_s3\<rparr>) =
     \<lparr>statusCode = 200,
      result_body = example_stringify
        (JObj [(''message'', JStr ''answer of s3Agent''), (''agent'', JStr ''s3Agent'')])\<rparr>"
    by (simp add: example_server_env_fields)
  from e have e': "invokeSignedApiRequest example_client_env ''https://forbidden.example/''
       ''us-east-1'' (Some ''default'') (Some ''POST'') request_s3 =
       Inl (Error ''Request failed with status 403'')"
    by (simp add: st decimal_403)
  from a' h7 e' show ?thesis by blast
qed

text \<open>
  Claim C8 as stated fails for a response whose body is not JSON: the client reads
  \<^verbatim>\<open>response.json()\<close> before it looks at the status, so for the gateway below, which
  answers 502 with a page of HTML, what is thrown is the error of the parser, which does not
  carry the status.
\<close>

theorem buffered_client_non_json_counterexample:
  "\<not> ok response_bad_gateway
   \<and> status response_bad_gateway = 502
   \<and> invokeSignedApiRequest example_client_env ''https://gateway.example/'' ''us-east-1''
       (Some ''default'') (Some ''POST'') request_s3 =
       Inl (Error ''Unexpected token < in JSON at position 0'')"
  by (simp add: invokeSignedApiRequest_def example_client_env_fields example_new_URL_hosts
      example_sign_def example_fetch_hosts ok_def response_bad_gateway_def)

section \<open>The MCP server\<close>

lemma runRemoteAgentProxy_override:
  assumes "in_lambdaFunctionUrlOverride inp = Some u" and "u \<noteq> []"
  shows "snd (runRemoteAgentProxy env cfn stringify inp) = []"
  using assms by (simp add: runRemoteAgentProxy_def split: sum.splits)

lemma runRemoteAgentProxy_no_override:
  assumes "\<not> truthy (in_lambdaFunctionUrlOverride inp)"
    and "credentialProvider env (in_profile inp) = Inr creds" and "\<not> blank (in_query inp)"
  shows "snd (runRemoteAgentProxy env cfn stringify inp) =
           [GetCfnOutput (in_stackName inp) ''StreamingFunctionUrlEndpoint'' (in_region inp)]"
  using assms by (simp add: runRemoteAgentProxy_def split: sum.splits option.splits)


lemma runRemoteAgentProxy_blank_query:
  assumes "credentialProvider env (in_profile inp) = Inr creds" and "blank (in_query inp)"
  shows "runRemoteAgentProxy env cfn stringify inp =
           (Inr \<lparr>result_output = ''Please provide a query to send to the remote agent.'',
                 result_sessionId = in_sessionId inp\<rparr>, [])"
  using assms by (simp add: runRemoteAgentProxy_def)








section \<open>Endpoint resolution in the chat client\<close>




text \<open>
  Claim C6, as amended. When the call of the MCP tool gives a Function URL that is not empty,
  \<open>runRemoteAgentProxy\<close> makes no lookup. When the command line of the chat client gives
  an endpoint that is not empty, \<open>getApiEndpoint\<close> is not called and the configuration is
  produced with that endpoint, and the one lookup made is \<open>getFunctionUrl\<close>, for which
  the command line has no override.
\<close>

theorem endpoint_override_skips_lookup:
  assumes "in_lambdaFunctionUrlOverride inp = Some u" and "u \<noteq> []"
    and "arg_endpoint args = Some e" and "e \<noteq> []"
  shows "snd (runRemoteAgentProxy cenv cfn stringify inp) = []
       \<and> snd (loadAndValidateConfig env now args) =
           [GetFunctionUrl (arg_stackName args) (arg_region args) (Some (arg_profile args))]
       \<and> filter is_GetApiEndpoint (snd (loadAndValidateConfig env now args)) = []
       \<and> (\<exists>config. fst (loadAndValidateConfig env now args) = Inr config
             \<and> apiGatewayEndpoint config = Some e)"
proof -
  have m: "snd (runRemoteAgentProxy cenv cfn stringify inp) = []"
    using assms(1,2) by (rule runRemoteAgentProxy_override)
  have c: "snd (loadAndValidateConfig env now args) =
           [GetFunctionUrl (arg_stackName args) (arg_region args) (Some (arg_profile args))]"
    using assms(3,4) by (simp add: loadAndValidateConfig_def Let_def)
  then have f: "filter is_GetApiEndpoint (snd (loadAndValidateConfig env now args)) = []"
    by simp
  have g: "\<exists>config. fst (loadAndValidateConfig env now args) = Inr config
             \<and> apiGatewayEndpoint config = Some e"
    using assms(3,4) by (simp add: loadAndValidateConfig_def Let_def)
  from m c f g show ?thesis by blast
qed

theorem endpoint_override_skips_lookup_witness:
  "in_lambdaFunctionUrlOverride example_input = Some ''https://stream.example/''
   \<and> snd (runRemoteAgentProxy example_client_env example_cfn_env example_stringify
              example_input) = []
   \<and> arg_endpoint argv_endpoint = Some ''https://api.example/prod/chat''
   \<and> filter is_GetApiEndpoint
        (snd (loadAndValidateConfig example_cfn_env 1747616836147 argv_endpoint)) = []
   \<and> map_sum id apiGatewayEndpoint
        (fst (loadAndValidateConfig example_cfn_env 1747616836147 argv_endpoint))
       = Inr (Some ''https://api.example/prod/chat'')"
proof -
  have h1: "in_lambdaFunctionUrlOverride example_input = Some ''https://stream.example/''"
    by (simp add: example_input_def)
  have h2: "''https://stream.example/'' \<noteq> []" by simp
  have h3: "arg_endpoint argv_endpoint = Some ''https://api.example/prod/chat''"
    by (simp add: argv_endpoint_def)
  have h4: "''https://api.example/prod/chat'' \<noteq> []" by simp
  note r = endpoint_override_skips_lookup
    [OF h1 h2 h3 h4, of example_client_env example_cfn_env example_stringify
       example_cfn_env 1747616836147]
  from r have m: "snd (runRemoteAgentProxy example_client_env example_cfn_env example_stringify
              example_input) = []" by blast
  from r have a: "filter is_GetApiEndpoint
        (snd (loadAndValidateConfig example_cfn_env 1747616836147 argv_endpoint)) = []"
    by blast
  from r obtain config where
    "fst (loadAndValidateConfig example_cfn_env 1747616836147 argv_endpoint) = Inr config"
    "apiGatewayEndpoint config = Some ''https://api.example/prod/chat''" by blast
  then have b: "map_sum id apiGatewayEndpoint
        (fst (loadAndValidateConfig example_cfn_env 1747616836147 argv_endpoint))
       = Inr (Some ''https://api.example/prod/chat'')" by simp
  from h1 m h3 a b show ?thesis by blast
qed

text \<open>
  Claim C6 as stated fails in the chat client: with an endpoint on the command line the
  stack-output lookup is still called once, by \<open>getFunctionUrl\<close>.
\<close>

theorem endpoint_override_lookup_counterexample:
  "arg_endpoint argv_endpoint = Some ''https://api.example/prod/chat''
   \<and> snd (loadAndValidateConfig example_cfn_env 1747616836147 argv_endpoint) =
       [GetFunctionUrl ''ServerlessAgentPatternStack'' ''us-east-1'' (Some ''default'')]
   \<and> length (snd (loadAndValidateConfig example_cfn_env 1747616836147 argv_endpoint)) = 1"
  by (simp add: loadAndValidateConfig_def Let_def argv_endpoint_def argv_default_def)

section \<open>Session identifiers\<close>





lemma decimal_not_empty: "decimal n \<noteq> []"
  by (subst decimal.simps) simp





lemma number_to_string_not_empty: "number_to_string i \<noteq> []"
  by (simp add: number_to_string_def decimal_not_empty)




section \<open>The session identifier\<close>




text \<open>
  The transports and the configuration with their console output settle as the ones without.
\<close>

lemma invokeSignedApiRequest_io_outcome:
  "fst (invokeSignedApiRequest_io env endpoint region_name profile_name method_opt body_text)
     = invokeSignedApiRequest env endpoint region_name profile_name method_opt body_text"
  by (simp add: invokeSignedApiRequest_io_def invokeSignedApiRequest_def Let_def
      split: sum.splits option.splits)

lemma invokeStreamingRequest_io_outcome:
  "fst (invokeStreamingRequest_io env DEBUG onChunk functionUrl region_name profile_name body_text)
     = fst (invokeStreamingRequest env functionUrl region_name profile_name body_text)"
  by (simp add: invokeStreamingRequest_io_def invokeStreamingRequest_def Let_def
      split: sum.splits option.splits)

lemma invokeStreamingRequest_io_chunks:
  assumes "fst (invokeStreamingRequest env functionUrl region_name profile_name body_text) = Inr u"
  shows "snd (invokeStreamingRequest_io env DEBUG onChunk functionUrl region_name profile_name
                body_text)
         = concat (map (\<lambda>text. log_if DEBUG (''[DEBUG] Received raw chunk: '' @ text)
                                @ onChunk text)
                     (snd (invokeStreamingRequest env functionUrl region_name profile_name
                             body_text)))"
  using assms
  by (auto simp: invokeStreamingRequest_io_def invokeStreamingRequest_def Let_def
      split: sum.splits option.splits if_splits)



























end
